theory Spec2Isabelle
  imports Main "HOL-Library.Word"
begin

unbundle bit_operations_syntax

section \<open>Vulkan values used by dgcgears.c\<close>

text \<open>
  Handles are opaque numbers handed out by the driver. Flag masks and counters are the
  32-bit unsigned integers of the C API. Enumerations of \<^verbatim>\<open>vulkan.h\<close> are datatypes that
  list the members dgcgears.c names, plus the members a driver may also report.
\<close>

type_synonym u32 = "32 word"
type_synonym VkImage = nat
type_synonym VkImageView = nat
type_synonym VkDeviceMemory = nat

datatype VkPresentModeKHR =
    VK_PRESENT_MODE_IMMEDIATE_KHR
  | VK_PRESENT_MODE_MAILBOX_KHR
  | VK_PRESENT_MODE_FIFO_KHR
  | VK_PRESENT_MODE_FIFO_RELAXED_KHR
  | VK_PRESENT_MODE_SHARED_DEMAND_REFRESH_KHR
  | VK_PRESENT_MODE_SHARED_CONTINUOUS_REFRESH_KHR

datatype VkFormat =
    VK_FORMAT_B8G8R8A8_UNORM
  | VK_FORMAT_B8G8R8A8_SRGB
  | VK_FORMAT_R8G8B8A8_UNORM
  | VK_FORMAT_R8G8B8A8_SRGB
  | VK_FORMAT_X8_D24_UNORM_PACK32
  | VK_FORMAT_D32_SFLOAT
  | VK_FORMAT_OTHER nat

datatype VkColorSpaceKHR =
    VK_COLOR_SPACE_SRGB_NONLINEAR_KHR
  | VK_COLOR_SPACE_OTHER nat

datatype VkImageLayout =
    VK_IMAGE_LAYOUT_UNDEFINED
  | VK_IMAGE_LAYOUT_COLOR_ATTACHMENT_OPTIMAL
  | VK_IMAGE_LAYOUT_DEPTH_STENCIL_ATTACHMENT_OPTIMAL
  | VK_IMAGE_LAYOUT_PRESENT_SRC_KHR

datatype VkResult =
    VK_SUCCESS
  | VK_NOT_READY
  | VK_TIMEOUT
  | VK_SUBOPTIMAL_KHR
  | VK_ERROR_OUT_OF_HOST_MEMORY
  | VK_ERROR_OUT_OF_DEVICE_MEMORY
  | VK_ERROR_OUT_OF_DATE_KHR
  | VK_ERROR_SURFACE_LOST_KHR
  | VK_ERROR_DEVICE_LOST

definition VK_MEMORY_PROPERTY_DEVICE_LOCAL_BIT :: u32 where
  "VK_MEMORY_PROPERTY_DEVICE_LOCAL_BIT = 0x1"

definition VK_MEMORY_PROPERTY_HOST_VISIBLE_BIT :: u32 where
  "VK_MEMORY_PROPERTY_HOST_VISIBLE_BIT = 0x2"

definition VK_MEMORY_PROPERTY_HOST_COHERENT_BIT :: u32 where
  "VK_MEMORY_PROPERTY_HOST_COHERENT_BIT = 0x4"

definition VK_MEMORY_PROPERTY_LAZILY_ALLOCATED_BIT :: u32 where
  "VK_MEMORY_PROPERTY_LAZILY_ALLOCATED_BIT = 0x10"

definition VK_FORMAT_FEATURE_DEPTH_STENCIL_ATTACHMENT_BIT :: u32 where
  "VK_FORMAT_FEATURE_DEPTH_STENCIL_ATTACHMENT_BIT = 0x200"

definition VK_COMPOSITE_ALPHA_OPAQUE_BIT_KHR :: u32 where
  "VK_COMPOSITE_ALPHA_OPAQUE_BIT_KHR = 0x1"

definition VK_SAMPLE_COUNT_1_BIT :: u32 where
  "VK_SAMPLE_COUNT_1_BIT = 0x1"

definition VK_MAX_MEMORY_TYPES :: nat where
  "VK_MAX_MEMORY_TYPES = 32"

text \<open>
  Every way the program stops other than by reaching the end of a function:
  \<^verbatim>\<open>error(...)\<close> prints its message and calls \<^verbatim>\<open>exit(1)\<close>; a failed \<^verbatim>\<open>assert\<close> aborts;
  \<^verbatim>\<open>exit(0)\<close> is called from the key and window callbacks; the main loop is left with
  \<^verbatim>\<open>break\<close>; an operation the C standard leaves undefined is kept apart from all of
  these; a fence wait that nothing will ever end is kept apart as well.
\<close>

datatype halt =
    Fatal string
  | Assert_failed string
  | Undefined_behaviour string
  | Exit_success
  | Loop_break
  | Wait_never_returns

section \<open>find_memory_type\<close>

record VkMemoryType =
  propertyFlags :: u32
  heapIndex :: u32

record VkPhysicalDeviceMemoryProperties =
  memoryTypeCount :: u32
  memoryTypes :: "VkMemoryType list"

record VkMemoryRequirements =
  req_size :: nat
  memoryTypeBits :: u32

text \<open>
  The loop of \<^verbatim>\<open>find_memory_type\<close>, entered at index \<open>i\<close>:
  \<^verbatim>\<open>for (unsigned i = 0; (1u << i) <= reqs->memoryTypeBits &&
                       i <= mem_props.memoryTypeCount; ++i)\<close>.
  Shifting a 32-bit value by 32 is undefined in C; the loop condition does so when it is
  evaluated at \<open>i = 32\<close>. Below 32 every read of \<^verbatim>\<open>memoryTypes[i]\<close> is inside the array
  of \<open>VK_MAX_MEMORY_TYPES\<close> entries.
\<close>

function find_memory_type_from ::
  "VkPhysicalDeviceMemoryProperties \<Rightarrow> VkMemoryRequirements \<Rightarrow> u32 \<Rightarrow> nat \<Rightarrow> halt + int" where
  "find_memory_type_from mp reqs flags i =
     (if 32 \<le> i then Inl (Undefined_behaviour ''1u << 32'')
      else if push_bit i (1 :: u32) \<le> memoryTypeBits reqs \<and> i \<le> unat (memoryTypeCount mp)
      then (if memoryTypeBits reqs AND push_bit i 1 \<noteq> 0 \<and>
               propertyFlags (memoryTypes mp ! i) AND flags = flags
            then Inr (int i)
            else find_memory_type_from mp reqs flags (Suc i))
      else Inr (- 1))"
  by pat_completeness auto
termination
  by (relation "measure (\<lambda>(mp, reqs, flags, i). 32 - i)") auto

declare find_memory_type_from.simps [simp del]

definition find_memory_type ::
  "VkPhysicalDeviceMemoryProperties \<Rightarrow> VkMemoryRequirements \<Rightarrow> u32 \<Rightarrow> halt + int" where
  "find_memory_type mp reqs flags = find_memory_type_from mp reqs flags 0"

section \<open>The driver and the surface as the program sees them\<close>

record VkSurfaceCapabilitiesKHR =
  minImageCount :: u32
  maxImageCount :: u32
  supportedCompositeAlpha :: u32

record VkSurfaceFormatKHR =
  format :: VkFormat
  colorSpace :: VkColorSpaceKHR

record VkSwapchainCreateInfoKHR =
  ci_minImageCount :: u32
  ci_imageFormat :: VkFormat
  ci_imageColorSpace :: VkColorSpaceKHR
  ci_imageExtent :: "int \<times> int"
  ci_presentMode :: VkPresentModeKHR

datatype VkImageAspect = VK_IMAGE_ASPECT_COLOR_BIT | VK_IMAGE_ASPECT_DEPTH_BIT

datatype image_usage = Color_transient_attachment | Depth_stencil_transient_attachment

text \<open>
  What the Vulkan driver and the window system answer. The program only calls them; each
  answer is a field, a function of the arguments the program passes. A creation call
  that does not return \<^verbatim>\<open>VK_SUCCESS\<close> answers \<open>None\<close>. \<^verbatim>\<open>vkCreateFence\<close> answers, for the
  frame slot whose fence is asked for, whether it made one.
\<close>

record device =
  vk_init_failure :: "halt option"
  memory_properties :: VkPhysicalDeviceMemoryProperties
  framebufferColorSampleCounts :: u32
  framebufferDepthSampleCounts :: u32
  wsi_create_surface :: bool
  surface_caps :: VkSurfaceCapabilitiesKHR
  surface_supported :: bool
  present_modes :: "VkPresentModeKHR list"
  surface_formats :: "VkSurfaceFormatKHR list"
  optimalTilingFeatures :: "VkFormat \<Rightarrow> u32"
  vkGetSwapchainImagesKHR :: "VkSwapchainCreateInfoKHR \<Rightarrow> VkImage list"
  vkCreateImage :: "VkFormat \<Rightarrow> int \<times> int \<Rightarrow> u32 \<Rightarrow> image_usage \<Rightarrow> VkImage option"
  vkGetImageMemoryRequirements :: "VkImage \<Rightarrow> VkMemoryRequirements"
  vkAllocateMemory :: "nat \<Rightarrow> int \<Rightarrow> VkDeviceMemory option"
  vkBindImageMemory :: "VkImage \<Rightarrow> VkDeviceMemory \<Rightarrow> bool"
  vkCreateImageView :: "VkImage \<Rightarrow> VkFormat \<Rightarrow> VkImageAspect \<Rightarrow> VkImageView option"
  vkCreateFence :: "nat \<Rightarrow> bool"

section \<open>The program's global variables\<close>

text \<open>
  The state of a frame slot's fence object: created with \<^verbatim>\<open>VK_FENCE_CREATE_SIGNALED_BIT\<close>
  and not touched since; reset by \<^verbatim>\<open>vkResetFences\<close> and handed to no submission; passed to
  \<^verbatim>\<open>vkQueueSubmit\<close> together with the command buffer of the frame slot of the given index;
  no fence object (none created yet, or destroyed).
\<close>

datatype fence_state =
    Fence_created_signaled
  | Fence_reset
  | Fence_submitted nat
  | Fence_none

record image_slot =
  image :: VkImage
  view :: VkImageView

record frame_slot =
  fence :: fence_state

definition IMAGE_DATA_SIZE :: nat where
  "IMAGE_DATA_SIZE = 5"

definition MAX_CONCURRENT_FRAMES :: nat where
  "MAX_CONCURRENT_FRAMES = 2"

record globals =
  mem_props :: VkPhysicalDeviceMemoryProperties
  width :: int
  height :: int
  new_width :: int
  new_height :: int
  desidered_present_mode :: VkPresentModeKHR
  sample_count :: u32
  image_count :: nat
  present_mode :: VkPresentModeKHR
  image_format :: VkFormat
  color_space :: VkColorSpaceKHR
  depth_format :: VkFormat
  min_image_count :: u32
  color_msaa :: VkImage
  depth_image :: VkImage
  color_msaa_view :: VkImageView
  depth_view :: VkImageView
  color_msaa_memory :: VkDeviceMemory
  depth_memory :: VkDeviceMemory
  image_data :: "image_slot list"
  frame_data :: "frame_slot list"

section \<open>configure_swapchain\<close>

text \<open>The present-mode loop: the first entry equal to the desired mode ends it.\<close>

fun select_present_mode ::
  "VkPresentModeKHR \<Rightarrow> VkPresentModeKHR list \<Rightarrow> VkPresentModeKHR \<Rightarrow> VkPresentModeKHR" where
  "select_present_mode desired [] chosen = chosen"
| "select_present_mode desired (m # ms) chosen =
     (if m = desired then desired else select_present_mode desired ms chosen)"

text \<open>
  Lines 462 to 473: start from 2, raise to the surface's minimum (fatal when that is more
  than \<^verbatim>\<open>image_data\<close> holds), then lower to the surface's maximum when one is reported.
\<close>

definition select_min_image_count :: "VkSurfaceCapabilitiesKHR \<Rightarrow> halt + u32" where
  "select_min_image_count caps =
     (if (2 :: u32) < minImageCount caps \<and> IMAGE_DATA_SIZE < unat (minImageCount caps)
      then Inl (Fatal ''surface_caps.minImageCount is too large (is: %d, max: %d)'')
      else
        let n = (if (2 :: u32) < minImageCount caps then minImageCount caps else 2)
        in Inr (if 0 < maxImageCount caps \<and> maxImageCount caps < n
                then maxImageCount caps else n))"

text \<open>The surface-format loop: the first B8G8R8A8 sRGB entry, else what was chosen before.\<close>

fun select_surface_format ::
  "VkSurfaceFormatKHR list \<Rightarrow> VkFormat \<times> VkColorSpaceKHR \<Rightarrow> VkFormat \<times> VkColorSpaceKHR" where
  "select_surface_format [] chosen = chosen"
| "select_surface_format (f # fs) chosen =
     (if format f = VK_FORMAT_B8G8R8A8_SRGB \<and> colorSpace f = VK_COLOR_SPACE_SRGB_NONLINEAR_KHR
      then (format f, colorSpace f)
      else select_surface_format fs chosen)"

definition select_depth_format :: "device \<Rightarrow> VkFormat" where
  "select_depth_format dev =
     (if optimalTilingFeatures dev VK_FORMAT_D32_SFLOAT
           AND VK_FORMAT_FEATURE_DEPTH_STENCIL_ATTACHMENT_BIT \<noteq> 0
      then VK_FORMAT_D32_SFLOAT else VK_FORMAT_X8_D24_UNORM_PACK32)"

definition configure_swapchain :: "device \<Rightarrow> globals \<Rightarrow> halt + globals" where
  "configure_swapchain dev g =
     (if supportedCompositeAlpha (surface_caps dev) AND VK_COMPOSITE_ALPHA_OPAQUE_BIT_KHR = 0
      then Inl (Assert_failed ''surface_caps.supportedCompositeAlpha & VK_COMPOSITE_ALPHA_OPAQUE_BIT_KHR'')
      else if \<not> surface_supported dev then Inl (Assert_failed ''supported'')
      else
        let g1 = g\<lparr>present_mode :=
                    select_present_mode (desidered_present_mode g) (present_modes dev)
                      VK_PRESENT_MODE_FIFO_KHR\<rparr>
        in case select_min_image_count (surface_caps dev) of
             Inl h \<Rightarrow> Inl h
           | Inr n \<Rightarrow>
               (case surface_formats dev of
                  [] \<Rightarrow> Inl (Undefined_behaviour ''surface_formats[0]'')
                | f0 # fs \<Rightarrow>
                    let (fmt, cs) = select_surface_format (f0 # fs) (format f0, colorSpace f0)
                    in Inr (g1\<lparr>min_image_count := n,
                               image_format := fmt,
                               color_space := cs,
                               depth_format := select_depth_format dev\<rparr>)))"

section \<open>create_swapchain, free_swapchain_data, recreate_swapchain\<close>

definition create_image ::
  "device \<Rightarrow> VkFormat \<Rightarrow> int \<times> int \<Rightarrow> u32 \<Rightarrow> image_usage \<Rightarrow> VkImage option" where
  "create_image dev fmt extent samples usage = vkCreateImage dev fmt extent samples usage"

definition image_allocate ::
  "device \<Rightarrow> VkImage \<Rightarrow> VkMemoryRequirements \<Rightarrow> int \<Rightarrow> VkDeviceMemory option" where
  "image_allocate dev img reqs memory_type =
     (case vkAllocateMemory dev (req_size reqs) memory_type of
        None \<Rightarrow> None
      | Some m \<Rightarrow> if vkBindImageMemory dev img m then Some m else None)"

definition create_image_view ::
  "device \<Rightarrow> VkImage \<Rightarrow> VkFormat \<Rightarrow> VkImageAspect \<Rightarrow> VkImageView option" where
  "create_image_view dev img view_format aspect_mask = vkCreateImageView dev img view_format aspect_mask"

text \<open>
  The block that create_swapchain runs for the resolve image and again for the depth
  image: search with the lazily-allocated property, search with the device-local property
  if the first search returned a negative value, stop with an error if the second did too.
\<close>

definition attachment_memory_type ::
  "VkPhysicalDeviceMemoryProperties \<Rightarrow> VkMemoryRequirements \<Rightarrow> halt + int" where
  "attachment_memory_type mp reqs =
     (case find_memory_type mp reqs VK_MEMORY_PROPERTY_LAZILY_ALLOCATED_BIT of
        Inl h \<Rightarrow> Inl h
      | Inr memory_type \<Rightarrow>
          if memory_type < 0
          then (case find_memory_type mp reqs VK_MEMORY_PROPERTY_DEVICE_LOCAL_BIT of
                  Inl h \<Rightarrow> Inl h
                | Inr memory_type2 \<Rightarrow>
                    if memory_type2 < 0 then Inl (Fatal ''find_memory_type failed'')
                    else Inr memory_type2)
          else Inr memory_type)"

definition create_resolve_attachment :: "device \<Rightarrow> globals \<Rightarrow> halt + globals" where
  "create_resolve_attachment dev g =
     (if sample_count g \<noteq> VK_SAMPLE_COUNT_1_BIT then
        (case create_image dev (image_format g) (width g, height g) (sample_count g)
                Color_transient_attachment of
           None \<Rightarrow> Inl (Fatal ''Failed to create resolve image'')
         | Some img \<Rightarrow>
             (case attachment_memory_type (mem_props g) (vkGetImageMemoryRequirements dev img) of
                Inl h \<Rightarrow> Inl h
              | Inr memory_type \<Rightarrow>
                  (case image_allocate dev img (vkGetImageMemoryRequirements dev img) memory_type of
                     None \<Rightarrow> Inl (Fatal ''Failed to allocate memory for the resolve image'')
                   | Some m \<Rightarrow>
                       (case create_image_view dev img (image_format g) VK_IMAGE_ASPECT_COLOR_BIT of
                          None \<Rightarrow> Inl (Fatal ''Failed to create the image view for the resolve image'')
                        | Some v \<Rightarrow>
                            Inr (g\<lparr>color_msaa := img, color_msaa_memory := m,
                                    color_msaa_view := v\<rparr>)))))
      else Inr g)"

definition create_depth_attachment :: "device \<Rightarrow> globals \<Rightarrow> halt + globals" where
  "create_depth_attachment dev g =
     (case create_image dev (depth_format g) (width g, height g) (sample_count g)
             Depth_stencil_transient_attachment of
        None \<Rightarrow> Inl (Fatal ''Failed to create depth image'')
      | Some img \<Rightarrow>
          (case attachment_memory_type (mem_props g) (vkGetImageMemoryRequirements dev img) of
             Inl h \<Rightarrow> Inl h
           | Inr memory_type \<Rightarrow>
               (case image_allocate dev img (vkGetImageMemoryRequirements dev img) memory_type of
                  None \<Rightarrow> Inl (Fatal ''Failed to allocate memory for the depth image'')
                | Some m \<Rightarrow>
                    (case create_image_view dev img (depth_format g) VK_IMAGE_ASPECT_DEPTH_BIT of
                       None \<Rightarrow> Inl (Fatal ''Failed to create the image view for the depth image'')
                     | Some v \<Rightarrow>
                         Inr (g\<lparr>depth_image := img, depth_memory := m, depth_view := v\<rparr>)))))"

text \<open>
  The loop over the swapchain images, entered at index \<open>i\<close> with the images still to store.
  \<^verbatim>\<open>image_data\<close> has 5 entries and the loop does not check its index against that; the
  result of \<^verbatim>\<open>vkCreateImageView\<close> is not checked either, so a failed call leaves the old view.
\<close>

fun store_swapchain_images ::
  "device \<Rightarrow> VkFormat \<Rightarrow> VkImage list \<Rightarrow> nat \<Rightarrow> image_slot list \<Rightarrow> halt + image_slot list" where
  "store_swapchain_images dev fmt [] i slots = Inr slots"
| "store_swapchain_images dev fmt (img # imgs) i slots =
     (if IMAGE_DATA_SIZE \<le> i then Inl (Undefined_behaviour ''image_data[i], i >= 5'')
      else store_swapchain_images dev fmt imgs (Suc i)
             (slots[i := \<lparr>image = img,
                           view = (case vkCreateImageView dev img fmt VK_IMAGE_ASPECT_COLOR_BIT of
                                     Some v \<Rightarrow> v
                                   | None \<Rightarrow> view (slots ! i))\<rparr>]))"

text \<open>
  The loop over the frame slots. The result of \<^verbatim>\<open>vkCreateFence\<close> is not checked: a failed
  call leaves the slot with what it held. The command buffer and the semaphore of the
  slot have no part in what follows.
\<close>

definition create_frame_data :: "device \<Rightarrow> frame_slot list \<Rightarrow> frame_slot list" where
  "create_frame_data dev fd =
     fold (\<lambda>i fd. if vkCreateFence dev i then fd[i := \<lparr>fence = Fence_created_signaled\<rparr>] else fd)
       [0..<MAX_CONCURRENT_FRAMES] fd"

definition swapchain_create_info :: "globals \<Rightarrow> VkSwapchainCreateInfoKHR" where
  "swapchain_create_info g =
     \<lparr>ci_minImageCount = min_image_count g,
      ci_imageFormat = image_format g,
      ci_imageColorSpace = color_space g,
      ci_imageExtent = (width g, height g),
      ci_presentMode = present_mode g\<rparr>"

definition create_swapchain :: "device \<Rightarrow> globals \<Rightarrow> halt + globals" where
  "create_swapchain dev g =
     (let swapchain_images = vkGetSwapchainImagesKHR dev (swapchain_create_info g);
          g1 = g\<lparr>image_count := length swapchain_images\<rparr>
      in if image_count g1 = 0 then Inl (Assert_failed ''image_count > 0'')
         else case create_resolve_attachment dev g1 of
                Inl h \<Rightarrow> Inl h
              | Inr g2 \<Rightarrow>
                  (case create_depth_attachment dev g2 of
                     Inl h \<Rightarrow> Inl h
                   | Inr g3 \<Rightarrow>
                       (case store_swapchain_images dev (image_format g3) swapchain_images 0
                               (image_data g3) of
                          Inl h \<Rightarrow> Inl h
                        | Inr slots \<Rightarrow>
                            Inr (g3\<lparr>image_data := slots,
                                     frame_data := create_frame_data dev (frame_data g3)\<rparr>))))"

definition free_swapchain_data :: "globals \<Rightarrow> globals" where
  "free_swapchain_data g =
     g\<lparr>frame_data :=
         fold (\<lambda>i fd. fd[i := \<lparr>fence = Fence_none\<rparr>]) [0..<MAX_CONCURRENT_FRAMES]
           (frame_data g)\<rparr>"

definition recreate_swapchain :: "device \<Rightarrow> globals \<Rightarrow> halt + globals" where
  "recreate_swapchain dev g =
     create_swapchain dev
       ((free_swapchain_data g)\<lparr>width := new_width g, height := new_height g\<rparr>)"


section \<open>init_gears: the indirect buffer\<close>

record gear =
  first_vertex :: u32
  vertex_count :: u32

definition pipeline_idx :: "int list" where
  "pipeline_idx = [0, 1, 2]"

definition shader_idx :: "int list" where
  "shader_idx = [0, 2, 3]"

text \<open>
  Sizes and offsets in bytes. \<^verbatim>\<open>indirect_data\<close> is two \<^verbatim>\<open>uint32_t\<close> followed by a
  \<^verbatim>\<open>VkDrawIndirectCommand\<close> of four \<^verbatim>\<open>uint32_t\<close> (vertexCount, instanceCount, firstVertex,
  firstInstance), with no padding. Line 1427 computes the size of the buffer, of its memory
  and of the mapping from \<^verbatim>\<open>sizeof(uint32_t)\<close>, not from the two of \<^verbatim>\<open>ies\<close>.
\<close>

definition sizeof_uint32_t :: nat where
  "sizeof_uint32_t = 4"

definition sizeof_VkDrawIndirectCommand :: nat where
  "sizeof_VkDrawIndirectCommand = 4 * sizeof_uint32_t"

definition sizeof_indirect_data :: nat where
  "sizeof_indirect_data = 2 * sizeof_uint32_t + sizeof_VkDrawIndirectCommand"

definition indirect_size :: nat where
  "indirect_size = 3 * (sizeof_uint32_t + sizeof_VkDrawIndirectCommand)"

definition offsetof_ies :: "nat \<Rightarrow> nat" where
  "offsetof_ies k = k * sizeof_uint32_t"

definition offsetof_draw :: nat where
  "offsetof_draw = 2 * sizeof_uint32_t"

definition offsetof_vertexCount :: nat where
  "offsetof_vertexCount = 0"

definition offsetof_instanceCount :: nat where
  "offsetof_instanceCount = sizeof_uint32_t"

definition offsetof_firstVertex :: nat where
  "offsetof_firstVertex = 2 * sizeof_uint32_t"

definition offsetof_firstInstance :: nat where
  "offsetof_firstInstance = 3 * sizeof_uint32_t"

text \<open>
  \<^verbatim>\<open>vkMapMemory(device, indirect_mem, 0, indirect_size, 0, &indirect_map)\<close> maps
  \<^verbatim>\<open>indirect_size\<close> bytes of a memory object of that same size. The mapping is the list of
  its 32-bit words, holding whatever the memory held; every field the loop writes is one
  aligned word.
\<close>

definition map_indirect_memory :: "(nat \<Rightarrow> u32) \<Rightarrow> u32 list" where
  "map_indirect_memory contents = map contents [0..<indirect_size div sizeof_uint32_t]"

text \<open>A store of one word at a byte offset from \<^verbatim>\<open>indirect_map\<close>; outside the mapping it is undefined.\<close>

definition store_u32 :: "nat \<Rightarrow> u32 \<Rightarrow> u32 list \<Rightarrow> halt + u32 list" where
  "store_u32 byte_offset v mapped =
     (if byte_offset div sizeof_uint32_t < length mapped
      then Inr (mapped[byte_offset div sizeof_uint32_t := v])
      else Inl (Undefined_behaviour ''store past the mapped range of indirect_mem''))"

fun store_all :: "(nat \<times> u32) list \<Rightarrow> u32 list \<Rightarrow> halt + u32 list" where
  "store_all [] mapped = Inr mapped"
| "store_all ((byte_offset, v) # stores) mapped =
     (case store_u32 byte_offset v mapped of
        Inl h \<Rightarrow> Inl h
      | Inr mapped1 \<Rightarrow> store_all stores mapped1)"

text \<open>The six stores of one pass of the loop at lines 1448 to 1455, in the order of the source.\<close>

definition indirect_record_stores :: "bool \<Rightarrow> gear list \<Rightarrow> nat \<Rightarrow> (nat \<times> u32) list" where
  "indirect_record_stores use_shader_object gears i =
     (let base = i * sizeof_indirect_data in
      [(base + offsetof_ies 0,
          word_of_int (if use_shader_object then shader_idx ! i else pipeline_idx ! i)),
       (base + offsetof_ies 1, 1),
       (base + offsetof_draw + offsetof_vertexCount, vertex_count (gears ! i)),
       (base + offsetof_draw + offsetof_firstVertex, first_vertex (gears ! i)),
       (base + offsetof_draw + offsetof_firstInstance, 0),
       (base + offsetof_draw + offsetof_instanceCount, 1)])"

definition indirect_stores :: "bool \<Rightarrow> gear list \<Rightarrow> (nat \<times> u32) list" where
  "indirect_stores use_shader_object gears =
     concat (map (indirect_record_stores use_shader_object gears) [0..<length gears])"

text \<open>
  Lines 1427 to 1456 of init_gears: the mapping of \<^verbatim>\<open>indirect_size\<close> bytes and the loop
  over the gears. The result is the mapped words when \<^verbatim>\<open>vkUnmapMemory\<close> is reached.
\<close>

definition init_gears_indirect :: "bool \<Rightarrow> gear list \<Rightarrow> (nat \<Rightarrow> u32) \<Rightarrow> halt + u32 list" where
  "init_gears_indirect use_shader_object gears contents =
     store_all (indirect_stores use_shader_object gears) (map_indirect_memory contents)"

section \<open>Scene state and the window-system callbacks\<close>

text \<open>
  The C \<^verbatim>\<open>float\<close> and \<^verbatim>\<open>double\<close> arithmetic of the scene state is a parameter: a type \<open>'f\<close> of
  values with the operations the program applies to them. Whatever is proved below holds
  for every choice of these operations, so for IEEE arithmetic too.
\<close>

record 'f fp_ops =
  fp_add :: "'f \<Rightarrow> 'f \<Rightarrow> 'f"
  fp_sub :: "'f \<Rightarrow> 'f \<Rightarrow> 'f"
  fp_mul :: "'f \<Rightarrow> 'f \<Rightarrow> 'f"
  fp_less :: "'f \<Rightarrow> 'f \<Rightarrow> bool"
  fp_lit :: "int \<Rightarrow> 'f"

record 'f scene =
  view_rot0 :: 'f
  view_rot1 :: 'f
  animate :: bool
  angle :: 'f
  tRot0 :: 'f

definition initial_scene :: "'f fp_ops \<Rightarrow> 'f scene" where
  "initial_scene fp =
     \<lparr>view_rot0 = fp_lit fp 20, view_rot1 = fp_lit fp 30, animate = True,
      angle = fp_lit fp 0, tRot0 = fp_lit fp (- 1)\<rparr>"

text \<open>
  Modelled from the spec: \<^verbatim>\<open>enum wsi_key\<close> is declared in wsi/wsi.h, which is not among the
  sources; the spec's key bindings name Esc, Up, Down, Left, Right and the animation
  toggle, and \<^verbatim>\<open>wsi_key_press\<close> has a \<^verbatim>\<open>default\<close> branch for any other key.
\<close>

datatype wsi_key =
    WSI_KEY_ESC
  | WSI_KEY_UP
  | WSI_KEY_DOWN
  | WSI_KEY_LEFT
  | WSI_KEY_RIGHT
  | WSI_KEY_A
  | WSI_KEY_OTHER

definition wsi_key_press :: "'f fp_ops \<Rightarrow> bool \<Rightarrow> wsi_key \<Rightarrow> 'f scene \<Rightarrow> halt + 'f scene" where
  "wsi_key_press fp down key s =
     (if \<not> down then Inr s
      else case key of
             WSI_KEY_ESC \<Rightarrow> Inl Exit_success
           | WSI_KEY_UP \<Rightarrow> Inr (s\<lparr>view_rot0 := fp_add fp (view_rot0 s) (fp_lit fp 5)\<rparr>)
           | WSI_KEY_DOWN \<Rightarrow> Inr (s\<lparr>view_rot0 := fp_sub fp (view_rot0 s) (fp_lit fp 5)\<rparr>)
           | WSI_KEY_LEFT \<Rightarrow> Inr (s\<lparr>view_rot1 := fp_add fp (view_rot1 s) (fp_lit fp 5)\<rparr>)
           | WSI_KEY_RIGHT \<Rightarrow> Inr (s\<lparr>view_rot1 := fp_sub fp (view_rot1 s) (fp_lit fp 5)\<rparr>)
           | WSI_KEY_A \<Rightarrow> Inr (s\<lparr>animate := \<not> animate s\<rparr>)
           | WSI_KEY_OTHER \<Rightarrow> Inr s)"

definition wsi_resize :: "int \<Rightarrow> int \<Rightarrow> globals \<Rightarrow> globals" where
  "wsi_resize p_new_width p_new_height g =
     g\<lparr>new_width := p_new_width, new_height := p_new_height\<rparr>"

definition wsi_exit :: halt where
  "wsi_exit = Exit_success"

text \<open>
  Lines 1915 to 1927 of main: the time step since the previous iteration, and the rotation
  it adds to \<^verbatim>\<open>angle\<close> while \<^verbatim>\<open>animate\<close> is set.
\<close>

definition advance_rotation :: "'f fp_ops \<Rightarrow> 'f \<Rightarrow> 'f scene \<Rightarrow> 'f scene" where
  "advance_rotation fp t s =
     (let tRot0_1 = (if fp_less fp (tRot0 s) (fp_lit fp 0) then t else tRot0 s);
          dt = fp_sub fp t tRot0_1;
          s1 = s\<lparr>tRot0 := t\<rparr>
      in if animate s1 then
           let a = fp_add fp (angle s1) (fp_mul fp (fp_lit fp 70) dt)
           in s1\<lparr>angle := (if fp_less fp (fp_lit fp 3600) a then fp_sub fp a (fp_lit fp 3600) else a)\<rparr>
         else s1)"

section \<open>main\<close>

record 'f main_state =
  gl :: globals
  sc :: "'f scene"
  frame_index :: nat
  first :: "bool list"

definition FIRST_SIZE :: nat where
  "FIRST_SIZE = 4"

text \<open>What \<^verbatim>\<open>wsi.update_window()\<close> delivers through the registered callbacks.\<close>

datatype wsi_event =
    Key_event bool wsi_key
  | Resize_event int int
  | Exit_event

definition deliver_event :: "'f fp_ops \<Rightarrow> wsi_event \<Rightarrow> 'f main_state \<Rightarrow> halt + 'f main_state" where
  "deliver_event fp ev st =
     (case ev of
        Key_event down key \<Rightarrow>
          (case wsi_key_press fp down key (sc st) of
             Inl h \<Rightarrow> Inl h
           | Inr s \<Rightarrow> Inr (st\<lparr>sc := s\<rparr>))
      | Resize_event w h \<Rightarrow> Inr (st\<lparr>gl := wsi_resize w h (gl st)\<rparr>)
      | Exit_event \<Rightarrow> Inl wsi_exit)"

fun deliver_events :: "'f fp_ops \<Rightarrow> wsi_event list \<Rightarrow> 'f main_state \<Rightarrow> halt + 'f main_state" where
  "deliver_events fp [] st = Inr st"
| "deliver_events fp (ev # evs) st =
     (case deliver_event fp ev st of
        Inl h \<Rightarrow> Inl h
      | Inr st1 \<Rightarrow> deliver_events fp evs st1)"

text \<open>
  What one pass of the loop gets from outside: the clock, the window system, whether the
  device is lost by the time the pass waits, and the results of \<^verbatim>\<open>vkResetFences\<close>,
  \<^verbatim>\<open>vkAcquireNextImageKHR\<close> and \<^verbatim>\<open>vkQueueSubmit\<close>.
\<close>

record 'f iteration_input =
  in_time :: 'f
  in_events :: "wsi_event list"
  in_update_window :: bool
  in_device_lost :: bool
  in_reset_result :: VkResult
  in_acquire_result :: VkResult
  in_image_index :: nat
  in_submit_result :: VkResult

text \<open>The part of a recorded, submitted and presented frame that depends on the indices.\<close>

record frame_commands =
  fc_frame_index :: nat
  fc_image_index :: nat
  fc_pre_barrier_old_layout :: VkImageLayout
  fc_pre_barrier_new_layout :: VkImageLayout
  fc_pre_barrier_image :: VkImage
  fc_color_view :: VkImageView
  fc_resolve_view :: "VkImageView option"
  fc_depth_view :: VkImageView
  fc_post_barrier_old_layout :: VkImageLayout
  fc_post_barrier_new_layout :: VkImageLayout
  fc_post_barrier_image :: VkImage
  fc_present_image_index :: nat

definition record_frame :: "globals \<Rightarrow> bool list \<Rightarrow> nat \<Rightarrow> nat \<Rightarrow> frame_commands" where
  "record_frame g first_flags frame_idx image_idx =
     \<lparr>fc_frame_index = frame_idx,
      fc_image_index = image_idx,
      fc_pre_barrier_old_layout =
        (if \<not> first_flags ! image_idx then VK_IMAGE_LAYOUT_UNDEFINED
         else VK_IMAGE_LAYOUT_PRESENT_SRC_KHR),
      fc_pre_barrier_new_layout = VK_IMAGE_LAYOUT_COLOR_ATTACHMENT_OPTIMAL,
      fc_pre_barrier_image = image (image_data g ! frame_idx),
      fc_color_view =
        (if sample_count g \<noteq> VK_SAMPLE_COUNT_1_BIT then color_msaa_view g
         else view (image_data g ! image_idx)),
      fc_resolve_view =
        (if sample_count g \<noteq> VK_SAMPLE_COUNT_1_BIT then Some (view (image_data g ! image_idx))
         else None),
      fc_depth_view = depth_view g,
      fc_post_barrier_old_layout = VK_IMAGE_LAYOUT_COLOR_ATTACHMENT_OPTIMAL,
      fc_post_barrier_new_layout = VK_IMAGE_LAYOUT_PRESENT_SRC_KHR,
      fc_post_barrier_image = image (image_data g ! frame_idx),
      fc_present_image_index = image_idx\<rparr>"

text \<open>
  Lines 1934 to 1937, the WAIT_SLOT step: \<^verbatim>\<open>vkWaitForFences\<close> on the fence of the current
  frame slot, with the timeout \<^verbatim>\<open>UINT64_MAX\<close>, then \<^verbatim>\<open>vkResetFences\<close>; the program looks at
  neither result. A fence as created is signaled. A fence that went into an accepted
  submission is signaled when the work is done or the device is lost, and Vulkan has the
  wait return in finite time in both cases. On a fence that was reset and went into no
  accepted submission the wait returns only if the device is lost. A reset that fails
  leaves the fence as it was.
\<close>

definition wait_slot :: "'f iteration_input \<Rightarrow> 'f main_state \<Rightarrow> halt + 'f main_state" where
  "wait_slot inp st =
     (if \<not> frame_index st < MAX_CONCURRENT_FRAMES
      then Inl (Assert_failed ''frame_index < ARRAY_SIZE(frame_data)'')
      else
        let after_reset =
              (if in_reset_result inp = VK_SUCCESS
               then st\<lparr>gl := (gl st)\<lparr>frame_data :=
                      (frame_data (gl st))[frame_index st := \<lparr>fence = Fence_reset\<rparr>]\<rparr>\<rparr>
               else st)
        in case fence (frame_data (gl st) ! frame_index st) of
             Fence_reset \<Rightarrow> if in_device_lost inp then Inr after_reset else Inl Wait_never_returns
           | Fence_none \<Rightarrow> Inl (Undefined_behaviour ''vkWaitForFences on no fence'')
           | Fence_created_signaled \<Rightarrow> Inr after_reset
           | Fence_submitted slot \<Rightarrow> Inr after_reset)"

text \<open>
  Lines 1939 to 2093, the steps ACQUIRE, RECORD, SUBMIT and PRESENT: the swapchain is
  recreated and the pass ends when the acquire is suboptimal or the window size differs
  from the swapchain's; else the frame is recorded, submitted with the slot's fence, and
  presented, and the ring index advances. \<^verbatim>\<open>first\<close> has 4 entries and is indexed with the
  acquired image index, which the assertion before only bounds by 5.
  \<^verbatim>\<open>vkQueueSubmit\<close> must be given an unsignaled fence. The program does not look at its
  result: a submit that is refused queues nothing and leaves the fence as it is, and the
  pass goes on to present and to advance the ring index all the same. Nothing here
  depends on the result of \<^verbatim>\<open>vkQueuePresentKHR\<close>. The frame-rate report at the end of the
  pass only prints.
\<close>

definition acquire_record_submit ::
  "device \<Rightarrow> 'f iteration_input \<Rightarrow> 'f main_state
     \<Rightarrow> halt + ('f main_state \<times> frame_commands option)" where
  "acquire_record_submit dev inp st =
     (if in_acquire_result inp = VK_SUBOPTIMAL_KHR \<or>
         width (gl st) \<noteq> new_width (gl st) \<or> height (gl st) \<noteq> new_height (gl st)
      then (case recreate_swapchain dev (gl st) of
              Inl h \<Rightarrow> Inl h
            | Inr g \<Rightarrow> Inr (st\<lparr>gl := g, first := replicate FIRST_SIZE False\<rparr>, None))
      else if in_acquire_result inp \<noteq> VK_SUCCESS
      then Inl (Assert_failed ''result == VK_SUCCESS'')
      else if \<not> in_image_index inp < IMAGE_DATA_SIZE
      then Inl (Assert_failed ''image_index < ARRAY_SIZE(image_data)'')
      else if \<not> in_image_index inp < FIRST_SIZE
      then Inl (Undefined_behaviour ''first[image_index], image_index >= 4'')
      else if fence (frame_data (gl st) ! frame_index st) = Fence_reset
      then
        Inr (st\<lparr>gl := (gl st)\<lparr>frame_data :=
                         (if in_submit_result inp = VK_SUCCESS
                          then (frame_data (gl st))[frame_index st :=
                                  \<lparr>fence = Fence_submitted (frame_index st)\<rparr>]
                          else frame_data (gl st))\<rparr>,
                 first := (first st)[in_image_index inp := True],
                 frame_index :=
                   (if frame_index st + 1 = MAX_CONCURRENT_FRAMES then 0
                    else frame_index st + 1)\<rparr>,
             Some (record_frame (gl st) (first st) (frame_index st) (in_image_index inp)))
      else Inl (Undefined_behaviour ''vkQueueSubmit with a fence that is not unsignaled''))"

text \<open>
  One pass of the \<^verbatim>\<open>while (1)\<close> loop of main. The result is the state for the next pass
  and, when the pass reached the recording of a frame, what it recorded.
\<close>

definition loop_iteration ::
  "'f fp_ops \<Rightarrow> device \<Rightarrow> 'f iteration_input \<Rightarrow> 'f main_state
     \<Rightarrow> halt + ('f main_state \<times> frame_commands option)" where
  "loop_iteration fp dev inp st =
     (case deliver_events fp (in_events inp)
             (st\<lparr>sc := advance_rotation fp (in_time inp) (sc st)\<rparr>) of
        Inl h \<Rightarrow> Inl h
      | Inr st1 \<Rightarrow>
          if in_update_window inp then Inl Loop_break
          else (case wait_slot inp st1 of
                  Inl h \<Rightarrow> Inl h
                | Inr st2 \<Rightarrow> acquire_record_submit dev inp st2))"

text \<open>The loop over a finite run of passes, with the frames recorded on the way.\<close>

fun main_loop ::
  "'f fp_ops \<Rightarrow> device \<Rightarrow> 'f iteration_input list \<Rightarrow> 'f main_state
     \<Rightarrow> halt + ('f main_state \<times> frame_commands list)" where
  "main_loop fp dev [] st = Inr (st, [])"
| "main_loop fp dev (inp # inps) st =
     (case loop_iteration fp dev inp st of
        Inl h \<Rightarrow> Inl h
      | Inr (st1, fc) \<Rightarrow>
          (case main_loop fp dev inps st1 of
             Inl h \<Rightarrow> Inl h
           | Inr (st2, fcs) \<Rightarrow>
               Inr (st2, (case fc of None \<Rightarrow> fcs | Some c \<Rightarrow> c # fcs))))"

subsection \<open>Start-up\<close>

definition check_sample_count_support :: "device \<Rightarrow> u32 \<Rightarrow> bool" where
  "check_sample_count_support dev samples =
     (samples AND framebufferColorSampleCounts dev \<noteq> 0 \<and>
      samples AND framebufferDepthSampleCounts dev \<noteq> 0)"

datatype startup_step =
    Step_init_display
  | Step_init_window
  | Step_init_vk
  | Step_check_sample_count_support
  | Step_print_info
  | Step_create_surface
  | Step_configure_swapchain
  | Step_create_swapchain
  | Step_init_gears

text \<open>
  Lines 1887 to 1908 of main, after the options are parsed into the globals: the calls in
  the order main makes them, as a log of the calls begun, and the globals main enters its
  loop with, or how the program stopped. \<^verbatim>\<open>init_vk\<close> stops the program when the driver
  refuses the instance or the device; of \<^verbatim>\<open>init_gears\<close> only the call is logged.
\<close>

definition main_startup ::
  "device \<Rightarrow> bool \<Rightarrow> globals \<Rightarrow> startup_step list \<times> (halt + globals)" where
  "main_startup dev printInfo g =
     (let g0 = g\<lparr>new_width := width g, new_height := height g\<rparr>;
          log3 = [Step_init_display, Step_init_window, Step_init_vk]
      in case vk_init_failure dev of
           Some h \<Rightarrow> (log3, Inl h)
         | None \<Rightarrow>
             let g1 = g0\<lparr>mem_props := memory_properties dev\<rparr>;
                 log4 = log3 @ [Step_check_sample_count_support]
             in if \<not> check_sample_count_support dev (sample_count g1)
                then (log4, Inl (Fatal ''Sample count not supported''))
                else
                  let log5 = log4 @ (if printInfo then [Step_print_info] else [])
                               @ [Step_create_surface]
                  in if \<not> wsi_create_surface dev
                     then (log5, Inl (Fatal ''Failed to create surface!''))
                     else
                       (case configure_swapchain dev g1 of
                          Inl h \<Rightarrow> (log5 @ [Step_configure_swapchain], Inl h)
                        | Inr g2 \<Rightarrow>
                            (case create_swapchain dev g2 of
                               Inl h \<Rightarrow>
                                 (log5 @ [Step_configure_swapchain, Step_create_swapchain], Inl h)
                             | Inr g3 \<Rightarrow>
                                 (log5 @ [Step_configure_swapchain, Step_create_swapchain,
                                          Step_init_gears], Inr g3))))"

text \<open>The globals as main has them once it has parsed an empty command line.\<close>

definition initial_globals :: globals where
  "initial_globals =
     \<lparr>mem_props = \<lparr>memoryTypeCount = 0,
                   memoryTypes = replicate VK_MAX_MEMORY_TYPES \<lparr>propertyFlags = 0, heapIndex = 0\<rparr>\<rparr>,
      width = 300, height = 300, new_width = 0, new_height = 0,
      desidered_present_mode = VK_PRESENT_MODE_FIFO_KHR,
      sample_count = VK_SAMPLE_COUNT_1_BIT,
      image_count = 0,
      present_mode = VK_PRESENT_MODE_IMMEDIATE_KHR,
      image_format = VK_FORMAT_OTHER 0,
      color_space = VK_COLOR_SPACE_SRGB_NONLINEAR_KHR,
      depth_format = VK_FORMAT_OTHER 0,
      min_image_count = 2,
      color_msaa = 0, depth_image = 0, color_msaa_view = 0, depth_view = 0,
      color_msaa_memory = 0, depth_memory = 0,
      image_data = replicate IMAGE_DATA_SIZE \<lparr>image = 0, view = 0\<rparr>,
      frame_data = replicate MAX_CONCURRENT_FRAMES \<lparr>fence = Fence_none\<rparr>\<rparr>"

definition initial_main_state :: "'f fp_ops \<Rightarrow> globals \<Rightarrow> 'f main_state" where
  "initial_main_state fp g =
     \<lparr>gl = g, sc = initial_scene fp, frame_index = 0, first = replicate FIRST_SIZE False\<rparr>"

subsection \<open>Predicates on states and devices\<close>

text \<open>
  A slot's fence lets a wait return: it is as created (signaled), or it went into the
  latest submission of that same slot.
\<close>

definition slot_fence_ready :: "frame_slot list \<Rightarrow> nat \<Rightarrow> bool" where
  "slot_fence_ready fd i =
     (fence (fd ! i) = Fence_created_signaled \<or> fence (fd ! i) = Fence_submitted i)"

definition fences_ready :: "'f main_state \<Rightarrow> bool" where
  "fences_ready st =
     (length (frame_data (gl st)) = MAX_CONCURRENT_FRAMES \<and>
      frame_index st < MAX_CONCURRENT_FRAMES \<and>
      list_all (slot_fence_ready (frame_data (gl st))) [0..<MAX_CONCURRENT_FRAMES])"

text \<open>The driver makes a fence for every frame slot it is asked for.\<close>

definition creates_fences :: "device \<Rightarrow> bool" where
  "creates_fences dev = list_all (vkCreateFence dev) [0..<MAX_CONCURRENT_FRAMES]"

text \<open>Whether a format can be a depth-stencil attachment with optimal tiling on a device.\<close>

definition depth_attachment_capable :: "device \<Rightarrow> VkFormat \<Rightarrow> bool" where
  "depth_attachment_capable dev fmt =
     (optimalTilingFeatures dev fmt AND VK_FORMAT_FEATURE_DEPTH_STENCIL_ATTACHMENT_BIT \<noteq> 0)"

subsection \<open>Concrete drivers and runs\<close>

text \<open>
  A driver with two memory types (device-local; host-visible and host-coherent), a
  surface of 2 to 8 images that hands out 3, and depth support for D32 only.
\<close>

definition example_device :: device where
  "example_device =
     \<lparr>vk_init_failure = None,
      memory_properties =
        \<lparr>memoryTypeCount = 2,
         memoryTypes =
           [\<lparr>propertyFlags = 0x1, heapIndex = 0\<rparr>, \<lparr>propertyFlags = 0x6, heapIndex = 1\<rparr>]
           @ replicate 30 \<lparr>propertyFlags = 0, heapIndex = 0\<rparr>\<rparr>,
      framebufferColorSampleCounts = 0xF,
      framebufferDepthSampleCounts = 0x7,
      wsi_create_surface = True,
      surface_caps = \<lparr>minImageCount = 2, maxImageCount = 8, supportedCompositeAlpha = 1\<rparr>,
      surface_supported = True,
      present_modes = [VK_PRESENT_MODE_FIFO_KHR, VK_PRESENT_MODE_MAILBOX_KHR],
      surface_formats =
        [\<lparr>format = VK_FORMAT_B8G8R8A8_UNORM, colorSpace = VK_COLOR_SPACE_SRGB_NONLINEAR_KHR\<rparr>,
         \<lparr>format = VK_FORMAT_B8G8R8A8_SRGB, colorSpace = VK_COLOR_SPACE_SRGB_NONLINEAR_KHR\<rparr>],
      optimalTilingFeatures = (\<lambda>fmt. if fmt = VK_FORMAT_D32_SFLOAT then 0x200 else 0),
      vkGetSwapchainImagesKHR = (\<lambda>ci. [100, 101, 102]),
      vkCreateImage =
        (\<lambda>fmt extent samples usage.
           Some (case usage of Color_transient_attachment \<Rightarrow> 200
                 | Depth_stencil_transient_attachment \<Rightarrow> 201)),
      vkGetImageMemoryRequirements = (\<lambda>img. \<lparr>req_size = 4096, memoryTypeBits = 0x1\<rparr>),
      vkAllocateMemory = (\<lambda>sz memory_type. Some 300),
      vkBindImageMemory = (\<lambda>img mem. True),
      vkCreateImageView = (\<lambda>img fmt aspect. Some (1000 + img)),
      vkCreateFence = (\<lambda>slot. True)\<rparr>"

text \<open>The same driver on a surface that takes exactly one image.\<close>

definition single_image_device :: device where
  "single_image_device =
     example_device\<lparr>surface_caps :=
       \<lparr>minImageCount = 1, maxImageCount = 1, supportedCompositeAlpha = 1\<rparr>\<rparr>"

text \<open>The same driver on a surface that asks for at least 6 images.\<close>

definition six_image_device :: device where
  "six_image_device =
     example_device\<lparr>surface_caps :=
       \<lparr>minImageCount = 6, maxImageCount = 8, supportedCompositeAlpha = 1\<rparr>\<rparr>"

text \<open>The same driver when D32 has no depth support and X8_D24 has.\<close>

definition d24_device :: device where
  "d24_device =
     example_device\<lparr>optimalTilingFeatures :=
       (\<lambda>fmt. if fmt = VK_FORMAT_X8_D24_UNORM_PACK32 then 0x200 else 0)\<rparr>"

text \<open>The same driver when 4 samples are supported for colour and not for depth.\<close>

definition no_depth_msaa4_device :: device where
  "no_depth_msaa4_device = example_device\<lparr>framebufferDepthSampleCounts := 0x3\<rparr>"

text \<open>
  The globals with which main enters its loop on this driver, after an empty command line.
\<close>

definition example_started :: globals where
  "example_started =
     (case snd (main_startup example_device False initial_globals) of
        Inr g \<Rightarrow> g
      | Inl h \<Rightarrow> initial_globals)"


text \<open>Integer arithmetic in place of the C floating point, to run the model.\<close>

definition int_fp :: "int fp_ops" where
  "int_fp = \<lparr>fp_add = (+), fp_sub = (-), fp_mul = (*), fp_less = (<), fp_lit = (\<lambda>i. i)\<rparr>"

definition acquire_input :: "int \<Rightarrow> nat \<Rightarrow> int iteration_input" where
  "acquire_input t image_idx =
     \<lparr>in_time = t, in_events = [], in_update_window = False,
      in_device_lost = False, in_reset_result = VK_SUCCESS,
      in_acquire_result = VK_SUCCESS, in_image_index = image_idx,
      in_submit_result = VK_SUCCESS\<rparr>"

definition key_input :: "int \<Rightarrow> wsi_key \<Rightarrow> nat \<Rightarrow> int iteration_input" where
  "key_input t key image_idx =
     (acquire_input t image_idx)\<lparr>in_events := [Key_event True key, Key_event False key]\<rparr>"

text \<open>A pass whose \<^verbatim>\<open>vkQueueSubmit\<close> is refused for lack of host memory.\<close>

definition refused_submit_input :: "int \<Rightarrow> nat \<Rightarrow> int iteration_input" where
  "refused_submit_input t image_idx =
     (acquire_input t image_idx)\<lparr>in_submit_result := VK_ERROR_OUT_OF_HOST_MEMORY\<rparr>"

text \<open>The scene after the passes at times 0 and 1: animating, at 70 degrees.\<close>

definition example_scene :: "int scene" where
  "example_scene = fold (advance_rotation int_fp) [0, 1] (initial_scene int_fp)"

text \<open>
  Seven passes, one a second: the animation key is pressed during the third and during
  the sixth.
\<close>

definition toggle_run :: "int iteration_input list" where
  "toggle_run =
     [acquire_input 0 0, acquire_input 1 1, key_input 2 WSI_KEY_A 2, acquire_input 3 0,
      acquire_input 4 1, key_input 5 WSI_KEY_A 2, acquire_input 6 0]"

text \<open>
  Memory properties with all 32 types reported, none of them lazily allocated, and an
  image that only the last type can hold.
\<close>

definition full_memory_properties :: VkPhysicalDeviceMemoryProperties where
  "full_memory_properties =
     \<lparr>memoryTypeCount = 32,
      memoryTypes = replicate 32 \<lparr>propertyFlags = 0x1, heapIndex = 0\<rparr>\<rparr>"

definition last_type_only :: VkMemoryRequirements where
  "last_type_only = \<lparr>req_size = 4096, memoryTypeBits = 0x80000000\<rparr>"

text \<open>
  Memory properties with 2 types reported; the entry after them holds what an earlier
  query or the driver left there.
\<close>

definition stale_memory_properties :: VkPhysicalDeviceMemoryProperties where
  "stale_memory_properties =
     \<lparr>memoryTypeCount = 2,
      memoryTypes =
        [\<lparr>propertyFlags = 0x6, heapIndex = 0\<rparr>, \<lparr>propertyFlags = 0x6, heapIndex = 0\<rparr>,
         \<lparr>propertyFlags = 0x1, heapIndex = 0\<rparr>]
        @ replicate 29 \<lparr>propertyFlags = 0, heapIndex = 0\<rparr>\<rparr>"

definition third_type_only :: VkMemoryRequirements where
  "third_type_only = \<lparr>req_size = 4096, memoryTypeBits = 0x4\<rparr>"

section \<open>Properties of find_memory_type\<close>

lemma unat_exp_u32:
  assumes "k < 32"
  shows "unat (2 ^ k :: u32) = 2 ^ k"
proof -
  have lt: "(2::nat) ^ k < 2 ^ LENGTH(32)"
    using assms by (intro power_strict_increasing) simp_all
  have "unat (2 ^ k :: u32) = unat (of_nat (2 ^ k) :: u32)"
    by simp
  also have "\<dots> = 2 ^ k mod 2 ^ LENGTH(32)"
    by (simp only: unat_of_nat)
  also have "\<dots> = 2 ^ k"
    using lt by (rule mod_less)
  finally show ?thesis .
qed

lemma bit_ge_exp:
  fixes w :: u32
  assumes "bit w j" and "k \<le> j"
  shows "push_bit k 1 \<le> w"
proof -
  have j: "j < 32"
    using bit_imp_le_length [OF assms(1)] by simp
  have "bit (unat w) j"
    using assms(1) by (simp add: bit_unsigned_iff)
  then have "2 ^ j \<le> unat w"
    by - (rule ccontr, simp add: bit_iff_odd not_le)
  moreover have "(2::nat) ^ k \<le> 2 ^ j"
    using assms(2) by simp
  ultimately have "2 ^ k \<le> unat w" by linarith
  moreover have "k < 32" using j assms(2) by simp
  ultimately show ?thesis
    by (simp add: word_le_nat_alt unat_exp_u32)
qed

lemma find_memory_type_from_step:
  assumes "i < 32"
    and "push_bit i (1 :: u32) \<le> memoryTypeBits reqs" and "i \<le> unat (memoryTypeCount mp)"
  shows "find_memory_type_from mp reqs flags i =
           (if bit (memoryTypeBits reqs) i \<and> propertyFlags (memoryTypes mp ! i) AND flags = flags
            then Inr (int i) else find_memory_type_from mp reqs flags (Suc i))"
  using assms
  by (subst find_memory_type_from.simps) (simp add: bit_iff_and_push_bit_not_eq_0)


text \<open>
  What the search does find: when a memory type below \<^verbatim>\<open>memoryTypeCount\<close> is allowed by the
  requirement mask and has the desired flags, the search returns the first such index.
\<close>

lemma find_memory_type_from_finds:
  assumes j: "bit (memoryTypeBits reqs) j" and cnt: "j \<le> unat (memoryTypeCount mp)"
    and fl: "propertyFlags (memoryTypes mp ! j) AND flags = flags"
    and k: "k \<le> j"
  shows "\<exists>i. k \<le> i \<and> i \<le> j \<and> find_memory_type_from mp reqs flags k = Inr (int i)
             \<and> bit (memoryTypeBits reqs) i
             \<and> propertyFlags (memoryTypes mp ! i) AND flags = flags"
  using k
proof (induction "j - k" arbitrary: k)
  case 0
  then have kj: "k = j" by simp
  have "j < 32" using bit_imp_le_length [OF j] by simp
  from find_memory_type_from_step [OF this bit_ge_exp [OF j le_refl] cnt, of flags] j fl
  show ?case by (simp add: kj)
next
  case (Suc n)
  then have lt: "k < j" by simp
  have "j < 32" using bit_imp_le_length [OF j] by simp
  with lt have k32: "k < 32" by simp
  have kc: "k \<le> unat (memoryTypeCount mp)" using lt cnt by simp
  note step = find_memory_type_from_step [OF k32 bit_ge_exp [OF j Suc.prems] kc, of flags]
  show ?case
  proof (cases "bit (memoryTypeBits reqs) k \<and> propertyFlags (memoryTypes mp ! k) AND flags = flags")
    case True
    with step Suc.prems show ?thesis by auto
  next
    case False
    have "n = j - Suc k" using Suc.hyps(2) by simp
    from Suc.hyps(1) [OF this] lt
    obtain i where "Suc k \<le> i" "i \<le> j" "find_memory_type_from mp reqs flags (Suc k) = Inr (int i)"
      "bit (memoryTypeBits reqs) i" "propertyFlags (memoryTypes mp ! i) AND flags = flags"
      by auto
    with step False show ?thesis by auto
  qed
qed

lemma find_memory_type_finds:
  assumes "j < unat (memoryTypeCount mp)" and "bit (memoryTypeBits reqs) j"
    and "propertyFlags (memoryTypes mp ! j) AND flags = flags"
  shows "\<exists>i \<le> j. find_memory_type mp reqs flags = Inr (int i)
             \<and> bit (memoryTypeBits reqs) i
             \<and> propertyFlags (memoryTypes mp ! i) AND flags = flags"
proof -
  have "j \<le> unat (memoryTypeCount mp)" using assms(1) by simp
  from find_memory_type_from_finds [OF assms(2) this assms(3), of 0]
  show ?thesis by (auto simp: find_memory_type_def)
qed

lemma find_memory_type_from_halt:
  "find_memory_type_from mp reqs flags i = Inl h \<Longrightarrow> h = Undefined_behaviour ''1u << 32''"
proof (induction mp reqs flags i rule: find_memory_type_from.induct)
  case (1 mp reqs flags i)
  let ?continue = "push_bit i (1 :: u32) \<le> memoryTypeBits reqs \<and> i \<le> unat (memoryTypeCount mp)"
  let ?found = "memoryTypeBits reqs AND push_bit i 1 \<noteq> 0 \<and>
                propertyFlags (memoryTypes mp ! i) AND flags = flags"
  show ?case
  proof (cases "32 \<le> i")
    case True
    then have "find_memory_type_from mp reqs flags i = Inl (Undefined_behaviour ''1u << 32'')"
      by (subst find_memory_type_from.simps) simp
    with "1.prems" show ?thesis by simp
  next
    case small: False
    show ?thesis
    proof (cases "?continue")
      case False
      with small have "find_memory_type_from mp reqs flags i = Inr (- 1)"
        by (subst find_memory_type_from.simps) auto
      with "1.prems" show ?thesis by simp
    next
      case continue: True
      show ?thesis
      proof (cases "?found")
        case True
        with small continue have "find_memory_type_from mp reqs flags i = Inr (int i)"
          by (subst find_memory_type_from.simps) simp
        with "1.prems" show ?thesis by simp
      next
        case False
        with small continue
        have "find_memory_type_from mp reqs flags i = find_memory_type_from mp reqs flags (Suc i)"
          by (subst find_memory_type_from.simps) auto
        with "1.prems" have "find_memory_type_from mp reqs flags (Suc i) = Inl h" by simp
        with small continue False show ?thesis by (intro "1.IH") simp_all
      qed
    qed
  qed
qed

lemma find_memory_type_halt:
  assumes "find_memory_type mp reqs flags = Inl h"
  shows "h \<noteq> Wait_never_returns"
proof -
  have "h = Undefined_behaviour ''1u << 32''"
    using assms unfolding find_memory_type_def by (rule find_memory_type_from_halt)
  then show ?thesis by simp
qed

text \<open>
  Claim C3. The loop of find_memory_type runs while \<^verbatim>\<open>i <= mem_props.memoryTypeCount\<close>, one
  index further than the reported memory types. With all 32 types reported, none lazily
  allocated, and a requirement mask of bit 31 alone, the search for a lazily allocated
  type evaluates \<^verbatim>\<open>1u << 32\<close> where the claim has it report -1. With 2 types reported
  and a requirement mask of bit 2 alone, the search returns 2, the index after the
  reported types, where the claim has it report -1.
\<close>

theorem memory_type_search_off_by_one:
  "find_memory_type full_memory_properties last_type_only VK_MEMORY_PROPERTY_LAZILY_ALLOCATED_BIT
     = Inl (Undefined_behaviour ''1u << 32'')
   \<and> \<not> list_ex
         (\<lambda>i. bit (memoryTypeBits last_type_only) i \<and>
              propertyFlags (memoryTypes full_memory_properties ! i)
                AND VK_MEMORY_PROPERTY_LAZILY_ALLOCATED_BIT = VK_MEMORY_PROPERTY_LAZILY_ALLOCATED_BIT)
         [0..<unat (memoryTypeCount full_memory_properties)]
   \<and> find_memory_type stale_memory_properties third_type_only VK_MEMORY_PROPERTY_DEVICE_LOCAL_BIT
     = Inr 2
   \<and> unat (memoryTypeCount stale_memory_properties) = 2
   \<and> \<not> list_ex
         (\<lambda>i. bit (memoryTypeBits third_type_only) i \<and>
              propertyFlags (memoryTypes stale_memory_properties ! i)
                AND VK_MEMORY_PROPERTY_DEVICE_LOCAL_BIT = VK_MEMORY_PROPERTY_DEVICE_LOCAL_BIT)
         [0..<unat (memoryTypeCount stale_memory_properties)]"
  by code_simp

section \<open>Properties of configure_swapchain\<close>

lemma select_present_mode_eq:
  "select_present_mode desired ms chosen = (if desired \<in> set ms then desired else chosen)"
  by (induction ms) auto

lemma configure_swapchain_fields:
  assumes "configure_swapchain dev g = Inr g'"
  shows "present_mode g' =
           select_present_mode (desidered_present_mode g) (present_modes dev) VK_PRESENT_MODE_FIFO_KHR"
    and "select_min_image_count (surface_caps dev) = Inr (min_image_count g')"
    and "depth_format g' = select_depth_format dev"
    and "sample_count g' = sample_count g"
    and "frame_data g' = frame_data g"
  using assms
  by (auto simp: configure_swapchain_def Let_def split: if_splits sum.splits list.splits prod.splits)

text \<open>
  Claim C6. When configure_swapchain returns, the present mode is the desired present mode
  if the surface's list of supported present modes contains it, and FIFO otherwise.
\<close>

theorem configure_swapchain_present_mode:
  assumes "configure_swapchain dev g = Inr g'"
  shows "present_mode g' =
           (if desidered_present_mode g \<in> set (present_modes dev)
            then desidered_present_mode g else VK_PRESENT_MODE_FIFO_KHR)"
  using configure_swapchain_fields(1) [OF assms] by (simp add: select_present_mode_eq)

text \<open>
  On the example driver, which lists FIFO and MAILBOX: a desired MAILBOX is taken, a
  desired IMMEDIATE falls back to FIFO.
\<close>

theorem configure_swapchain_present_mode_witness:
  "(\<exists>g'. configure_swapchain example_device
            (initial_globals\<lparr>desidered_present_mode := VK_PRESENT_MODE_MAILBOX_KHR\<rparr>) = Inr g'
         \<and> present_mode g' = VK_PRESENT_MODE_MAILBOX_KHR)
   \<and> (\<exists>g'. configure_swapchain example_device
            (initial_globals\<lparr>desidered_present_mode := VK_PRESENT_MODE_IMMEDIATE_KHR\<rparr>) = Inr g'
         \<and> present_mode g' = VK_PRESENT_MODE_FIFO_KHR)"
proof -
  have modes: "present_modes example_device = [VK_PRESENT_MODE_FIFO_KHR, VK_PRESENT_MODE_MAILBOX_KHR]"
    by (simp add: example_device_def)
  have ok: "\<exists>g'. configure_swapchain example_device (initial_globals\<lparr>desidered_present_mode := m\<rparr>)
                  = Inr g'" for m
    by (simp add: configure_swapchain_def example_device_def initial_globals_def
        select_min_image_count_def IMAGE_DATA_SIZE_def VK_COMPOSITE_ALPHA_OPAQUE_BIT_KHR_def)
  from ok obtain g1 where
    c1: "configure_swapchain example_device
           (initial_globals\<lparr>desidered_present_mode := VK_PRESENT_MODE_MAILBOX_KHR\<rparr>) = Inr g1"
    by blast
  from ok obtain g2 where
    c2: "configure_swapchain example_device
           (initial_globals\<lparr>desidered_present_mode := VK_PRESENT_MODE_IMMEDIATE_KHR\<rparr>) = Inr g2"
    by blast
  have "present_mode g1 = VK_PRESENT_MODE_MAILBOX_KHR"
    using configure_swapchain_present_mode [OF c1] by (simp add: modes)
  moreover have "present_mode g2 = VK_PRESENT_MODE_FIFO_KHR"
    using configure_swapchain_present_mode [OF c2] by (simp add: modes)
  ultimately show ?thesis using c1 c2 by blast
qed

text \<open>
  Claim C5. When configure_swapchain returns on a device that reports the
  depth-stencil-attachment capability with optimal tiling for D32_SFLOAT or for
  X8_D24_UNORM_PACK32 (one of the two has to be supported, as the comment at line 491
  says), the depth format is one of the two, the device reports the capability for it,
  and it is D32_SFLOAT exactly when the device reports the capability for D32_SFLOAT.
\<close>

theorem configure_swapchain_depth_format:
  assumes "configure_swapchain dev g = Inr g'"
    and "depth_attachment_capable dev VK_FORMAT_D32_SFLOAT \<or>
         depth_attachment_capable dev VK_FORMAT_X8_D24_UNORM_PACK32"
  shows "(depth_format g' = VK_FORMAT_D32_SFLOAT \<or> depth_format g' = VK_FORMAT_X8_D24_UNORM_PACK32)
         \<and> depth_attachment_capable dev (depth_format g')
         \<and> (depth_format g' = VK_FORMAT_D32_SFLOAT) = depth_attachment_capable dev VK_FORMAT_D32_SFLOAT"
  using assms(2) configure_swapchain_fields(3) [OF assms(1)]
  by (auto simp: select_depth_format_def depth_attachment_capable_def)

text \<open>On a driver with the capability for X8_D24_UNORM_PACK32 only, that format is selected.\<close>

theorem configure_swapchain_depth_format_witness:
  "\<exists>g'. configure_swapchain d24_device initial_globals = Inr g'
        \<and> depth_attachment_capable d24_device VK_FORMAT_X8_D24_UNORM_PACK32
        \<and> \<not> depth_attachment_capable d24_device VK_FORMAT_D32_SFLOAT
        \<and> depth_format g' = VK_FORMAT_X8_D24_UNORM_PACK32
        \<and> depth_attachment_capable d24_device (depth_format g')"
proof -
  obtain g' where ok: "configure_swapchain d24_device initial_globals = Inr g'"
    by (simp add: configure_swapchain_def d24_device_def example_device_def initial_globals_def
        select_min_image_count_def IMAGE_DATA_SIZE_def VK_COMPOSITE_ALPHA_OPAQUE_BIT_KHR_def)
  have cap: "depth_attachment_capable d24_device VK_FORMAT_X8_D24_UNORM_PACK32"
    by (simp add: depth_attachment_capable_def d24_device_def example_device_def
        VK_FORMAT_FEATURE_DEPTH_STENCIL_ATTACHMENT_BIT_def)
  have ncap: "\<not> depth_attachment_capable d24_device VK_FORMAT_D32_SFLOAT"
    by (simp add: depth_attachment_capable_def d24_device_def example_device_def)
  from configure_swapchain_depth_format [OF ok disjI2 [OF cap]] ok cap ncap
  show ?thesis by auto
qed

lemma select_min_image_count_Inr:
  assumes "select_min_image_count caps = Inr n"
  shows "unat (minImageCount caps) \<le> IMAGE_DATA_SIZE"
    and "n = (if 0 < maxImageCount caps \<and> maxImageCount caps < max 2 (minImageCount caps)
              then maxImageCount caps else max 2 (minImageCount caps))"
proof -
  have small: "unat (minImageCount caps) \<le> 2" if "\<not> 2 < minImageCount caps"
    using that by (simp add: word_less_nat_alt)
  show "unat (minImageCount caps) \<le> IMAGE_DATA_SIZE"
    using assms small
    by (auto simp: select_min_image_count_def IMAGE_DATA_SIZE_def split: if_splits)
  show "n = (if 0 < maxImageCount caps \<and> maxImageCount caps < max 2 (minImageCount caps)
              then maxImageCount caps else max 2 (minImageCount caps))"
    using assms
    by (auto simp: select_min_image_count_def Let_def max_def split: if_splits)
qed

lemma select_min_image_count_bounds:
  assumes "select_min_image_count caps = Inr n"
  shows "unat n \<le> IMAGE_DATA_SIZE" and "0 < maxImageCount caps \<Longrightarrow> n \<le> maxImageCount caps"
proof -
  have m: "unat (minImageCount caps) \<le> 5"
    using select_min_image_count_Inr(1) [OF assms] by (simp add: IMAGE_DATA_SIZE_def)
  have n: "n = (if 0 < maxImageCount caps \<and> maxImageCount caps < max 2 (minImageCount caps)
              then maxImageCount caps else max 2 (minImageCount caps))"
    by (rule select_min_image_count_Inr(2) [OF assms])
  have "unat (max 2 (minImageCount caps)) \<le> 5"
    using m by (simp add: max_def)
  then show "unat n \<le> IMAGE_DATA_SIZE"
    using n by (auto simp: IMAGE_DATA_SIZE_def word_less_nat_alt split: if_splits)
  show "n \<le> maxImageCount caps" if "0 < maxImageCount caps"
    using n that by (simp add: not_less split: if_splits)
qed

lemma configure_swapchain_too_many:
  assumes "IMAGE_DATA_SIZE < unat (minImageCount (surface_caps dev))"
  shows "\<exists>h. configure_swapchain dev g = Inl h"
    and "supportedCompositeAlpha (surface_caps dev) AND VK_COMPOSITE_ALPHA_OPAQUE_BIT_KHR \<noteq> 0
         \<Longrightarrow> surface_supported dev
         \<Longrightarrow> configure_swapchain dev g =
               Inl (Fatal ''surface_caps.minImageCount is too large (is: %d, max: %d)'')"
proof -
  have "2 < unat (minImageCount (surface_caps dev))"
    using assms by (simp add: IMAGE_DATA_SIZE_def)
  then have big: "(2 :: u32) < minImageCount (surface_caps dev)"
    by (simp add: word_less_nat_alt)
  have sel: "select_min_image_count (surface_caps dev) =
          Inl (Fatal ''surface_caps.minImageCount is too large (is: %d, max: %d)'')"
    using assms big by (simp add: select_min_image_count_def)
  show "\<exists>h. configure_swapchain dev g = Inl h"
    by (simp add: configure_swapchain_def sel Let_def)
  show "configure_swapchain dev g =
               Inl (Fatal ''surface_caps.minImageCount is too large (is: %d, max: %d)'')"
    if "supportedCompositeAlpha (surface_caps dev) AND VK_COMPOSITE_ALPHA_OPAQUE_BIT_KHR \<noteq> 0"
      and "surface_supported dev"
    using that by (simp add: configure_swapchain_def sel Let_def)
qed

text \<open>
  Claim C10, as stated, fails: on a surface whose minimum and maximum image count are
  both 1, configure_swapchain returns with min_image_count 1, which is not at least the
  larger of 2 and the surface's minimum.
\<close>

theorem configure_swapchain_min_image_count_counterexample:
  "map_sum id min_image_count (configure_swapchain single_image_device initial_globals) = Inr 1
   \<and> \<not> max 2 (minImageCount (surface_caps single_image_device)) \<le> (1 :: u32)"
  by (simp add: configure_swapchain_def single_image_device_def example_device_def initial_globals_def
        select_min_image_count_def IMAGE_DATA_SIZE_def VK_COMPOSITE_ALPHA_OPAQUE_BIT_KHR_def
        word_le_nat_alt)

text \<open>
  Claim C10, amended. A surface minimum above 5 stops configure_swapchain: it does not
  return, and once its two assertions hold it stops with the fatal error on the minimum
  image count. When configure_swapchain returns, min_image_count is the larger of 2 and
  the surface's minimum, unless the surface's maximum is nonzero and smaller than that,
  in which case it is that maximum; it does not exceed a nonzero maximum, and it does not
  exceed 5, the number of entries of image_data.
\<close>

theorem configure_swapchain_min_image_count:
  "(IMAGE_DATA_SIZE < unat (minImageCount (surface_caps dev)) \<longrightarrow>
      (\<exists>h. configure_swapchain dev g = Inl h) \<and>
      (supportedCompositeAlpha (surface_caps dev) AND VK_COMPOSITE_ALPHA_OPAQUE_BIT_KHR \<noteq> 0 \<and>
       surface_supported dev \<longrightarrow>
         configure_swapchain dev g =
           Inl (Fatal ''surface_caps.minImageCount is too large (is: %d, max: %d)'')))
   \<and> (\<forall>g'. configure_swapchain dev g = Inr g' \<longrightarrow>
         min_image_count g' =
           (if 0 < maxImageCount (surface_caps dev) \<and>
               maxImageCount (surface_caps dev) < max 2 (minImageCount (surface_caps dev))
            then maxImageCount (surface_caps dev)
            else max 2 (minImageCount (surface_caps dev)))
         \<and> (0 < maxImageCount (surface_caps dev) \<longrightarrow>
               min_image_count g' \<le> maxImageCount (surface_caps dev))
         \<and> unat (min_image_count g') \<le> IMAGE_DATA_SIZE)"
proof (intro conjI impI allI)
  fix g' assume ok: "configure_swapchain dev g = Inr g'"
  note sel = configure_swapchain_fields(2) [OF ok]
  show "min_image_count g' =
           (if 0 < maxImageCount (surface_caps dev) \<and>
               maxImageCount (surface_caps dev) < max 2 (minImageCount (surface_caps dev))
            then maxImageCount (surface_caps dev)
            else max 2 (minImageCount (surface_caps dev)))"
    by (rule select_min_image_count_Inr(2) [OF sel])
  show "unat (min_image_count g') \<le> IMAGE_DATA_SIZE"
    by (rule select_min_image_count_bounds(1) [OF sel])
  show "min_image_count g' \<le> maxImageCount (surface_caps dev)"
    if "0 < maxImageCount (surface_caps dev)"
    by (rule select_min_image_count_bounds(2) [OF sel that])
next
  assume "IMAGE_DATA_SIZE < unat (minImageCount (surface_caps dev))"
  then show "\<exists>h. configure_swapchain dev g = Inl h"
    by (rule configure_swapchain_too_many(1))
next
  assume "IMAGE_DATA_SIZE < unat (minImageCount (surface_caps dev))"
    and "supportedCompositeAlpha (surface_caps dev) AND VK_COMPOSITE_ALPHA_OPAQUE_BIT_KHR \<noteq> 0 \<and>
       surface_supported dev"
  then show "configure_swapchain dev g =
           Inl (Fatal ''surface_caps.minImageCount is too large (is: %d, max: %d)'')"
    using configure_swapchain_too_many(2) by blast
qed

text \<open>
  A surface that asks for 6 images stops the program; a surface of exactly one image
  gives min_image_count 1.
\<close>

theorem configure_swapchain_min_image_count_witness:
  "(IMAGE_DATA_SIZE < unat (minImageCount (surface_caps six_image_device))
     \<and> configure_swapchain six_image_device initial_globals =
           Inl (Fatal ''surface_caps.minImageCount is too large (is: %d, max: %d)''))
   \<and> (\<exists>g'. configure_swapchain single_image_device initial_globals = Inr g'
          \<and> 0 < maxImageCount (surface_caps single_image_device)
          \<and> min_image_count g' = 1)"
proof -
  have big: "IMAGE_DATA_SIZE < unat (minImageCount (surface_caps six_image_device))"
    by (simp add: six_image_device_def example_device_def IMAGE_DATA_SIZE_def)
  have pre: "supportedCompositeAlpha (surface_caps six_image_device)
               AND VK_COMPOSITE_ALPHA_OPAQUE_BIT_KHR \<noteq> 0 \<and> surface_supported six_image_device"
    by (simp add: six_image_device_def example_device_def VK_COMPOSITE_ALPHA_OPAQUE_BIT_KHR_def)
  obtain g' where ok: "configure_swapchain single_image_device initial_globals = Inr g'"
    by (simp add: configure_swapchain_def single_image_device_def example_device_def
        initial_globals_def select_min_image_count_def IMAGE_DATA_SIZE_def
        VK_COMPOSITE_ALPHA_OPAQUE_BIT_KHR_def)
  have caps: "surface_caps single_image_device =
                \<lparr>minImageCount = 1, maxImageCount = 1, supportedCompositeAlpha = 1\<rparr>"
    by (simp add: single_image_device_def example_device_def)
  from configure_swapchain_min_image_count [of six_image_device initial_globals] big pre
  have first: "configure_swapchain six_image_device initial_globals =
           Inl (Fatal ''surface_caps.minImageCount is too large (is: %d, max: %d)'')"
    by blast
  from configure_swapchain_min_image_count [of single_image_device initial_globals] ok
  have "min_image_count g' = 1"
    by (simp add: caps)
  with ok big first show ?thesis
    by (simp add: caps)
qed

section \<open>Properties of the start-up\<close>

text \<open>
  Claim C4. If the requested sample count is missing from the device's framebuffer colour
  sample counts or from its framebuffer depth sample counts, the start-up stops the
  program, and neither configure_swapchain nor create_swapchain is among the calls begun;
  when \<^verbatim>\<open>init_vk\<close> came through, the program stops right after the check, with the
  diagnostic \<^verbatim>\<open>Sample count not supported\<close>.
\<close>

theorem unsupported_sample_count_stops_before_swapchain:
  assumes "sample_count g AND framebufferColorSampleCounts dev = 0 \<or>
           sample_count g AND framebufferDepthSampleCounts dev = 0"
  shows "(\<exists>h. snd (main_startup dev printInfo g) = Inl h)
         \<and> Step_configure_swapchain \<notin> set (fst (main_startup dev printInfo g))
         \<and> Step_create_swapchain \<notin> set (fst (main_startup dev printInfo g))
         \<and> (vk_init_failure dev = None \<longrightarrow>
              main_startup dev printInfo g =
                ([Step_init_display, Step_init_window, Step_init_vk,
                  Step_check_sample_count_support],
                 Inl (Fatal ''Sample count not supported'')))"
  using assms
  by (auto simp: main_startup_def check_sample_count_support_def Let_def split: option.splits)

text \<open>Four samples on a driver that has them for colour and not for depth.\<close>

theorem unsupported_sample_count_stops_before_swapchain_witness:
  "sample_count (initial_globals\<lparr>sample_count := 4\<rparr>)
      AND framebufferDepthSampleCounts no_depth_msaa4_device = 0
   \<and> sample_count (initial_globals\<lparr>sample_count := 4\<rparr>)
      AND framebufferColorSampleCounts no_depth_msaa4_device \<noteq> 0
   \<and> main_startup no_depth_msaa4_device False (initial_globals\<lparr>sample_count := 4\<rparr>) =
       ([Step_init_display, Step_init_window, Step_init_vk, Step_check_sample_count_support],
        Inl (Fatal ''Sample count not supported''))"
proof -
  have d: "sample_count (initial_globals\<lparr>sample_count := 4\<rparr>)
      AND framebufferDepthSampleCounts no_depth_msaa4_device = 0"
    by (simp add: no_depth_msaa4_device_def example_device_def)
  have c: "sample_count (initial_globals\<lparr>sample_count := 4\<rparr>)
      AND framebufferColorSampleCounts no_depth_msaa4_device \<noteq> 0"
    by (simp add: no_depth_msaa4_device_def example_device_def)
  have i: "vk_init_failure no_depth_msaa4_device = None"
    by (simp add: no_depth_msaa4_device_def example_device_def)
  from unsupported_sample_count_stops_before_swapchain [OF disjI2 [OF d], of False] i c d
  show ?thesis by blast
qed

section \<open>Properties of init_gears\<close>

lemma indirect_sizes:
  "indirect_size = 60" "sizeof_indirect_data = 24" "sizeof_uint32_t = 4"
  by (simp_all add: indirect_size_def sizeof_indirect_data_def sizeof_VkDrawIndirectCommand_def
      sizeof_uint32_t_def)

lemma indirect_stores_three:
  "indirect_stores use_shader_object [g0, g1, g2] =
     [(0, if use_shader_object then 0 else 0), (4, 1),
      (8, vertex_count g0), (16, first_vertex g0), (20, 0), (12, 1),
      (24, if use_shader_object then 2 else 1), (28, 1),
      (32, vertex_count g1), (40, first_vertex g1), (44, 0), (36, 1),
      (48, if use_shader_object then 3 else 2), (52, 1),
      (56, vertex_count g2), (64, first_vertex g2), (68, 0), (60, 1)]"
proof -
  have idx: "[0..<length [g0, g1, g2]] = [0, 1, 2]"
    by (simp add: upt_rec)
  show ?thesis
    unfolding indirect_stores_def idx
    by (simp add: indirect_record_stores_def indirect_sizes offsetof_ies_def offsetof_draw_def
        offsetof_vertexCount_def offsetof_instanceCount_def offsetof_firstVertex_def
        offsetof_firstInstance_def shader_idx_def pipeline_idx_def)
qed

lemma upt_15: "[0..<15] = [0, 1, 2, 3, 4, 5, 6, 7, 8, 9, 10, 11, 12, 13, 14]"
  by (simp add: upt_rec)

lemma upt_18: "[0..<18] = [0, 1, 2, 3, 4, 5, 6, 7, 8, 9, 10, 11, 12, 13, 14, 15, 16, 17]"
  by (simp add: upt_rec)

text \<open>
  What the loop stores into a mapping of \<^verbatim>\<open>3 * sizeof(indirect_data)\<close> bytes, the size that
  line 1659 gives the device for the same buffer: three records, record i with the
  execution-set index 0, 2, 3 in shader-object mode and 0, 1, 2 in pipeline mode, the
  vertex count and first vertex of gear i, instance count 1 and first instance 0.
\<close>

lemma indirect_records_in_a_mapping_of_three_records:
  "store_all (indirect_stores use_shader_object [g0, g1, g2])
     (map contents [0..<3 * sizeof_indirect_data div sizeof_uint32_t]) =
     Inr [if use_shader_object then 0 else 0, 1, vertex_count g0, 1, first_vertex g0, 0,
          if use_shader_object then 2 else 1, 1, vertex_count g1, 1, first_vertex g1, 0,
          if use_shader_object then 3 else 2, 1, vertex_count g2, 1, first_vertex g2, 0]"
  by (simp add: indirect_stores_three indirect_sizes upt_18 store_u32_def)

text \<open>
  Claim C2. The buffer, its memory and the mapping have \<^verbatim>\<open>3 * (4 + 16) = 60\<close> bytes, and
  three records take \<^verbatim>\<open>3 * 24 = 72\<close>. For any three gears, in either mode and whatever the
  memory held, the first fifteen stores of the loop fit the mapping (records 0 and 1,
  and of record 2 the two indices and the vertex count), and the loop then stores the
  first vertex of record 2 past the mapped range, where the claim has it write three
  whole records.
\<close>

theorem init_gears_indirect_stores_past_mapping:
  "length (map_indirect_memory contents) * sizeof_uint32_t = 60
   \<and> 3 * sizeof_indirect_data = 72
   \<and> store_all (take 15 (indirect_stores use_shader_object [g0, g1, g2]))
        (map_indirect_memory contents) =
       Inr [if use_shader_object then 0 else 0, 1, vertex_count g0, 1, first_vertex g0, 0,
            if use_shader_object then 2 else 1, 1, vertex_count g1, 1, first_vertex g1, 0,
            if use_shader_object then 3 else 2, 1, vertex_count g2]
   \<and> take 1 (drop 15 (indirect_stores use_shader_object [g0, g1, g2])) = [(64, first_vertex g2)]
   \<and> init_gears_indirect use_shader_object [g0, g1, g2] contents =
       Inl (Undefined_behaviour ''store past the mapped range of indirect_mem'')"
  by (simp add: init_gears_indirect_def indirect_stores_three map_indirect_memory_def
      indirect_sizes upt_15 store_u32_def)

section \<open>Properties of the animation toggle\<close>

lemma advance_rotation_paused:
  "\<not> animate s \<Longrightarrow> advance_rotation fp t s = s\<lparr>tRot0 := t\<rparr>"
  by (simp add: advance_rotation_def Let_def)

lemma fold_advance_rotation_paused:
  "\<not> animate s \<Longrightarrow>
     angle (fold (advance_rotation fp) ts s) = angle s \<and>
     \<not> animate (fold (advance_rotation fp) ts s) \<and>
     view_rot0 (fold (advance_rotation fp) ts s) = view_rot0 s \<and>
     view_rot1 (fold (advance_rotation fp) ts s) = view_rot1 s \<and>
     tRot0 (fold (advance_rotation fp) ts s) = (if ts = [] then tRot0 s else last ts)"
  by (induction ts arbitrary: s) (simp_all add: advance_rotation_paused)

lemma advance_rotation_angle:
  "animate s \<Longrightarrow>
     angle (advance_rotation fp t s) =
       (let dt = fp_sub fp t (if fp_less fp (tRot0 s) (fp_lit fp 0) then t else tRot0 s);
            a = fp_add fp (angle s) (fp_mul fp (fp_lit fp 70) dt)
        in if fp_less fp (fp_lit fp 3600) a then fp_sub fp a (fp_lit fp 3600) else a)"
  by (simp add: advance_rotation_def Let_def)

text \<open>
  Claim C8. A press of the animation key flips \<^verbatim>\<open>animate\<close> and changes nothing else, and a
  second press gives back the scene the first press started from. When the scene was
  animating with the angle at \<open>angle s\<close>: a pass of the loop at time \<open>t\<close> moves the angle to
  \<open>angle s + 70 * dt\<close>, less 3600 when that is above 3600, with \<open>dt\<close> the time since the
  pass before; after the first press the angle stays \<open>angle s\<close> over the passes at the
  times \<open>ts\<close>, however many; a press after those passes sets \<^verbatim>\<open>animate\<close> again and leaves
  the angle; the pass at time \<open>t\<close> after that moves the angle to \<open>angle s + 70 * dt\<close>, less
  3600 when that is above 3600, with \<open>dt\<close> the time since the last of the paused passes:
  it goes on from the value held, not from zero.
\<close>

theorem animation_toggle_twice:
  "wsi_key_press fp True WSI_KEY_A s = Inr (s\<lparr>animate := \<not> animate s\<rparr>)
   \<and> wsi_key_press fp True WSI_KEY_A (s\<lparr>animate := \<not> animate s\<rparr>) = Inr s
   \<and> (animate s \<longrightarrow>
        angle (advance_rotation fp t s) =
          (let dt = fp_sub fp t (if fp_less fp (tRot0 s) (fp_lit fp 0) then t else tRot0 s);
               a = fp_add fp (angle s) (fp_mul fp (fp_lit fp 70) dt)
           in if fp_less fp (fp_lit fp 3600) a then fp_sub fp a (fp_lit fp 3600) else a)
        \<and> angle (fold (advance_rotation fp) ts (s\<lparr>animate := False\<rparr>)) = angle s
        \<and> wsi_key_press fp True WSI_KEY_A (fold (advance_rotation fp) ts (s\<lparr>animate := False\<rparr>)) =
            Inr ((fold (advance_rotation fp) ts (s\<lparr>animate := False\<rparr>))\<lparr>animate := True\<rparr>)
        \<and> angle (advance_rotation fp t
                   ((fold (advance_rotation fp) ts (s\<lparr>animate := False\<rparr>))\<lparr>animate := True\<rparr>)) =
          (let last_pass = (if ts = [] then tRot0 s else last ts);
               dt = fp_sub fp t (if fp_less fp last_pass (fp_lit fp 0) then t else last_pass);
               a = fp_add fp (angle s) (fp_mul fp (fp_lit fp 70) dt)
           in if fp_less fp (fp_lit fp 3600) a then fp_sub fp a (fp_lit fp 3600) else a))"
proof (intro conjI impI)
  show "wsi_key_press fp True WSI_KEY_A s = Inr (s\<lparr>animate := \<not> animate s\<rparr>)"
    by (simp add: wsi_key_press_def)
  show "wsi_key_press fp True WSI_KEY_A (s\<lparr>animate := \<not> animate s\<rparr>) = Inr s"
    by (simp add: wsi_key_press_def)
next
  assume a: "animate s"
  let ?p = "fold (advance_rotation fp) ts (s\<lparr>animate := False\<rparr>)"
  have p: "angle ?p = angle s" "\<not> animate ?p"
    "tRot0 ?p = (if ts = [] then tRot0 s else last ts)"
    using fold_advance_rotation_paused [of "s\<lparr>animate := False\<rparr>" fp ts] by simp_all
  show "angle (advance_rotation fp t s) =
          (let dt = fp_sub fp t (if fp_less fp (tRot0 s) (fp_lit fp 0) then t else tRot0 s);
               a = fp_add fp (angle s) (fp_mul fp (fp_lit fp 70) dt)
           in if fp_less fp (fp_lit fp 3600) a then fp_sub fp a (fp_lit fp 3600) else a)"
    by (rule advance_rotation_angle [OF a])
  show "angle ?p = angle s" by (rule p(1))
  show "wsi_key_press fp True WSI_KEY_A ?p = Inr (?p\<lparr>animate := True\<rparr>)"
    using p(2) by (simp add: wsi_key_press_def)
  have "angle (advance_rotation fp t (?p\<lparr>animate := True\<rparr>)) =
          (let dt = fp_sub fp t (if fp_less fp (tRot0 (?p\<lparr>animate := True\<rparr>)) (fp_lit fp 0) then t
                                 else tRot0 (?p\<lparr>animate := True\<rparr>));
               a = fp_add fp (angle (?p\<lparr>animate := True\<rparr>)) (fp_mul fp (fp_lit fp 70) dt)
           in if fp_less fp (fp_lit fp 3600) a then fp_sub fp a (fp_lit fp 3600) else a)"
    by (rule advance_rotation_angle) simp
  then show "angle (advance_rotation fp t (?p\<lparr>animate := True\<rparr>)) =
          (let last_pass = (if ts = [] then tRot0 s else last ts);
               dt = fp_sub fp t (if fp_less fp last_pass (fp_lit fp 0) then t else last_pass);
               a = fp_add fp (angle s) (fp_mul fp (fp_lit fp 70) dt)
           in if fp_less fp (fp_lit fp 3600) a then fp_sub fp a (fp_lit fp 3600) else a)"
    by (simp add: p Let_def)
qed

text \<open>
  From the scene at 70 degrees: the pass at time 2 moves it to 140; paused over the passes
  at times 2 and 3 it stays at 70; after the second press the pass at time 4 moves it to
  140, not to 70. In the main loop, with the key pressed during the third and the sixth of
  seven passes a second apart: the angle is 140 after the third pass, still 140 after the
  fifth, and 210 after the seventh.
\<close>

theorem animation_toggle_twice_witness:
  "animate example_scene
   \<and> angle example_scene = 70
   \<and> angle (advance_rotation int_fp 2 example_scene) = 140
   \<and> wsi_key_press int_fp True WSI_KEY_A example_scene = Inr (example_scene\<lparr>animate := False\<rparr>)
   \<and> angle (fold (advance_rotation int_fp) [2, 3] (example_scene\<lparr>animate := False\<rparr>)) = 70
   \<and> angle (advance_rotation int_fp 4
        ((fold (advance_rotation int_fp) [2, 3] (example_scene\<lparr>animate := False\<rparr>))
           \<lparr>animate := True\<rparr>)) = 140
   \<and> map (\<lambda>n. map_sum id (\<lambda>r. (animate (sc (fst r)), angle (sc (fst r))))
                (main_loop int_fp example_device (take n toggle_run)
                   (initial_main_state int_fp example_started)))
        [2, 3, 5, 6, 7]
      = [Inr (True, 70), Inr (False, 140), Inr (False, 140), Inr (True, 140), Inr (True, 210)]"
proof -
  have e: "example_scene =
             \<lparr>view_rot0 = 20, view_rot1 = 30, animate = True, angle = 70, tRot0 = 1\<rparr>"
    by (simp add: example_scene_def advance_rotation_def initial_scene_def int_fp_def Let_def)
  have a: "animate example_scene"
    by (simp add: e)
  have run: "map (\<lambda>n. map_sum id (\<lambda>r. (animate (sc (fst r)), angle (sc (fst r))))
                (main_loop int_fp example_device (take n toggle_run)
                   (initial_main_state int_fp example_started)))
        [2, 3, 5, 6, 7]
      = [Inr (True, 70), Inr (False, 140), Inr (False, 140), Inr (True, 140), Inr (True, 210)]"
    by code_simp
  from animation_toggle_twice [of int_fp example_scene 2 "[2, 3]"]
       animation_toggle_twice [of int_fp example_scene 4 "[2, 3]"] a run
  show ?thesis
    by (simp add: e int_fp_def Let_def)
qed

section \<open>Properties of create_swapchain and recreate_swapchain\<close>

lemma upt_frames: "[0..<MAX_CONCURRENT_FRAMES] = [0, 1]"
  by (simp add: MAX_CONCURRENT_FRAMES_def upt_rec)

lemma create_frame_data_length: "length (create_frame_data dev fd) = length fd"
  by (simp add: create_frame_data_def upt_frames)

lemma creates_fences_iff: "creates_fences dev \<longleftrightarrow> vkCreateFence dev 0 \<and> vkCreateFence dev 1"
  by (simp add: creates_fences_def upt_frames)

lemma create_frame_data_fence:
  assumes "i < length fd" and "i < MAX_CONCURRENT_FRAMES" and "creates_fences dev"
  shows "fence (create_frame_data dev fd ! i) = Fence_created_signaled"
proof -
  have "i = 0 \<or> i = 1"
    using assms(2) by (auto simp: MAX_CONCURRENT_FRAMES_def)
  then show ?thesis
    using assms(1,3)
    by (auto simp: create_frame_data_def upt_frames nth_list_update creates_fences_iff)
qed

lemma free_swapchain_data_length: "length (frame_data (free_swapchain_data g)) = length (frame_data g)"
  by (simp add: free_swapchain_data_def upt_frames)

lemma create_resolve_attachment_fields:
  assumes "create_resolve_attachment dev g = Inr g'"
  shows "image_format g' = image_format g" and "depth_format g' = depth_format g"
    and "sample_count g' = sample_count g" and "image_count g' = image_count g"
    and "frame_data g' = frame_data g" and "image_data g' = image_data g"
    and "width g' = width g" and "height g' = height g"
    and "new_width g' = new_width g" and "new_height g' = new_height g"
    and "mem_props g' = mem_props g"
    and "min_image_count g' = min_image_count g" and "color_space g' = color_space g"
    and "present_mode g' = present_mode g"
  using assms
  by (auto simp: create_resolve_attachment_def split: if_splits option.splits sum.splits)

lemma create_depth_attachment_fields:
  assumes "create_depth_attachment dev g = Inr g'"
  shows "image_format g' = image_format g" and "depth_format g' = depth_format g"
    and "sample_count g' = sample_count g" and "image_count g' = image_count g"
    and "frame_data g' = frame_data g" and "image_data g' = image_data g"
    and "width g' = width g" and "height g' = height g"
    and "new_width g' = new_width g" and "new_height g' = new_height g"
    and "mem_props g' = mem_props g"
    and "min_image_count g' = min_image_count g" and "color_space g' = color_space g"
    and "present_mode g' = present_mode g"
  using assms
  by (auto simp: create_depth_attachment_def split: option.splits sum.splits)

lemma create_swapchain_fields:
  assumes "create_swapchain dev g = Inr g'"
  shows "image_format g' = image_format g" and "depth_format g' = depth_format g"
    and "sample_count g' = sample_count g"
    and "image_count g' = length (vkGetSwapchainImagesKHR dev (swapchain_create_info g))"
    and "frame_data g' = create_frame_data dev (frame_data g)"
    and "width g' = width g" and "height g' = height g"
    and "new_width g' = new_width g" and "new_height g' = new_height g"
    and "mem_props g' = mem_props g"
    and "min_image_count g' = min_image_count g" and "color_space g' = color_space g"
    and "present_mode g' = present_mode g"
proof -
  let ?g1 = "g\<lparr>image_count := length (vkGetSwapchainImagesKHR dev (swapchain_create_info g))\<rparr>"
  from assms obtain g2 g3 slots where
    r: "create_resolve_attachment dev ?g1 = Inr g2"
    and d: "create_depth_attachment dev g2 = Inr g3"
    and g': "g' = g3\<lparr>image_data := slots, frame_data := create_frame_data dev (frame_data g3)\<rparr>"
    by (auto simp: create_swapchain_def Let_def split: if_splits sum.splits)
  note rf = create_resolve_attachment_fields [OF r]
  note df = create_depth_attachment_fields [OF d]
  show "image_format g' = image_format g" by (simp add: g' rf df)
  show "depth_format g' = depth_format g" by (simp add: g' rf df)
  show "sample_count g' = sample_count g" by (simp add: g' rf df)
  show "image_count g' = length (vkGetSwapchainImagesKHR dev (swapchain_create_info g))"
    by (simp add: g' rf df)
  show "frame_data g' = create_frame_data dev (frame_data g)" by (simp add: g' rf df)
  show "width g' = width g" by (simp add: g' rf df)
  show "height g' = height g" by (simp add: g' rf df)
  show "new_width g' = new_width g" by (simp add: g' rf df)
  show "new_height g' = new_height g" by (simp add: g' rf df)
  show "mem_props g' = mem_props g" by (simp add: g' rf df)
  show "min_image_count g' = min_image_count g" by (simp add: g' rf df)
  show "color_space g' = color_space g" by (simp add: g' rf df)
  show "present_mode g' = present_mode g" by (simp add: g' rf df)
qed

lemma recreate_swapchain_fields:
  assumes "recreate_swapchain dev g = Inr g'"
  shows "image_format g' = image_format g" and "depth_format g' = depth_format g"
    and "sample_count g' = sample_count g"
    and "image_count g' =
           length (vkGetSwapchainImagesKHR dev
             ((swapchain_create_info g)\<lparr>ci_imageExtent := (new_width g, new_height g)\<rparr>))"
    and "frame_data g' = create_frame_data dev (frame_data (free_swapchain_data g))"
    and "width g' = new_width g" and "height g' = new_height g"
    and "new_width g' = new_width g" and "new_height g' = new_height g"
    and "min_image_count g' = min_image_count g" and "color_space g' = color_space g"
    and "present_mode g' = present_mode g" and "mem_props g' = mem_props g"
proof -
  let ?g0 = "(free_swapchain_data g)\<lparr>width := new_width g, height := new_height g\<rparr>"
  have c: "create_swapchain dev ?g0 = Inr g'"
    using assms by (simp add: recreate_swapchain_def)
  have ci: "swapchain_create_info ?g0 =
              (swapchain_create_info g)\<lparr>ci_imageExtent := (new_width g, new_height g)\<rparr>"
    by (simp add: swapchain_create_info_def free_swapchain_data_def)
  note cf = create_swapchain_fields [OF c]
  show "image_format g' = image_format g" using cf(1) by (simp add: free_swapchain_data_def)
  show "depth_format g' = depth_format g" using cf(2) by (simp add: free_swapchain_data_def)
  show "sample_count g' = sample_count g" using cf(3) by (simp add: free_swapchain_data_def)
  show "image_count g' =
           length (vkGetSwapchainImagesKHR dev
             ((swapchain_create_info g)\<lparr>ci_imageExtent := (new_width g, new_height g)\<rparr>))"
    using cf(4) by (simp only: ci)
  show "frame_data g' = create_frame_data dev (frame_data (free_swapchain_data g))"
    using cf(5) by simp
  show "width g' = new_width g" using cf(6) by simp
  show "height g' = new_height g" using cf(7) by simp
  show "new_width g' = new_width g" using cf(8) by (simp add: free_swapchain_data_def)
  show "new_height g' = new_height g" using cf(9) by (simp add: free_swapchain_data_def)
  show "min_image_count g' = min_image_count g" using cf(11) by (simp add: free_swapchain_data_def)
  show "color_space g' = color_space g" using cf(12) by (simp add: free_swapchain_data_def)
  show "present_mode g' = present_mode g" using cf(13) by (simp add: free_swapchain_data_def)
  show "mem_props g' = mem_props g" using cf(10) by (simp add: free_swapchain_data_def)
qed


lemma example_attachment_memory_type:
  "attachment_memory_type (memory_properties example_device)
     \<lparr>req_size = 4096, memoryTypeBits = 0x1\<rparr> = Inr 0"
  by code_simp

lemma example_create_swapchain:
  assumes "mem_props g = memory_properties example_device"
    and "sample_count g = VK_SAMPLE_COUNT_1_BIT"
  shows "\<exists>g'. create_swapchain example_device g = Inr g'"
proof -
  have reqs: "vkGetImageMemoryRequirements example_device img =
                \<lparr>req_size = 4096, memoryTypeBits = 0x1\<rparr>" for img
    by (simp add: example_device_def)
  have imgs: "vkGetSwapchainImagesKHR example_device ci = [100, 101, 102]" for ci
    by (simp add: example_device_def)
  have img: "vkCreateImage example_device fmt ext smp Depth_stencil_transient_attachment = Some 201"
    for fmt ext smp
    by (simp add: example_device_def)
  have alloc: "vkAllocateMemory example_device sz ty = Some 300" for sz ty
    by (simp add: example_device_def)
  have bind: "vkBindImageMemory example_device i m" for i m
    by (simp add: example_device_def)
  have iview: "vkCreateImageView example_device i fmt asp = Some (1000 + i)" for i fmt asp
    by (simp add: example_device_def)
  have depth: "\<exists>g'. create_depth_attachment example_device g0 = Inr g'"
    if "mem_props g0 = memory_properties example_device" for g0
    by (simp add: create_depth_attachment_def create_image_def img reqs that
        example_attachment_memory_type image_allocate_def alloc bind create_image_view_def iview)
  have store: "\<exists>slots. store_swapchain_images example_device fmt [100, 101, 102] 0 sl = Inr slots"
    for fmt sl
    by (simp add: IMAGE_DATA_SIZE_def)
  define g1 where
    "g1 = g\<lparr>image_count := length (vkGetSwapchainImagesKHR example_device (swapchain_create_info g))\<rparr>"
  have nz: "image_count g1 \<noteq> 0"
    by (simp add: g1_def imgs)
  have r: "create_resolve_attachment example_device g1 = Inr g1"
    by (simp add: create_resolve_attachment_def g1_def assms(2))
  have "mem_props g1 = memory_properties example_device"
    by (simp add: g1_def assms(1))
  from depth [OF this]
  obtain g3 where d: "create_depth_attachment example_device g1 = Inr g3"
    by blast
  from store [of "image_format g3" "image_data g3"] obtain slots where
    s: "store_swapchain_images example_device (image_format g3)
          (vkGetSwapchainImagesKHR example_device (swapchain_create_info g)) 0 (image_data g3)
          = Inr slots"
    unfolding imgs by blast
  show ?thesis
    unfolding create_swapchain_def Let_def g1_def [symmetric]
    by (simp add: nz r d s)
qed


lemma example_started_eq:
  "snd (main_startup example_device False initial_globals) = Inr example_started"
proof -
  let ?g1 = "initial_globals\<lparr>new_width := width initial_globals,
               new_height := height initial_globals,
               mem_props := memory_properties example_device\<rparr>"
  obtain g2 where c: "configure_swapchain example_device ?g1 = Inr g2"
    by (simp add: configure_swapchain_def example_device_def initial_globals_def
        select_min_image_count_def IMAGE_DATA_SIZE_def VK_COMPOSITE_ALPHA_OPAQUE_BIT_KHR_def)
  have m: "mem_props g2 = memory_properties example_device"
    and sc: "sample_count g2 = VK_SAMPLE_COUNT_1_BIT"
    using c
    by (auto simp: configure_swapchain_def initial_globals_def Let_def
        split: if_splits sum.splits list.splits prod.splits)
  from example_create_swapchain [OF m sc]
  obtain g3 where k: "create_swapchain example_device g2 = Inr g3" by blast
  have chk: "check_sample_count_support example_device (sample_count ?g1)"
    by (simp add: check_sample_count_support_def example_device_def initial_globals_def
        VK_SAMPLE_COUNT_1_BIT_def)
  have ini: "vk_init_failure example_device = None" and sur: "wsi_create_surface example_device"
    by (simp_all add: example_device_def)
  have "snd (main_startup example_device False initial_globals) = Inr g3"
    using chk c k by (simp add: main_startup_def Let_def ini sur)
  then show ?thesis by (simp add: example_started_def)
qed

lemma example_started_fields:
  "mem_props example_started = memory_properties example_device"
  "sample_count example_started = VK_SAMPLE_COUNT_1_BIT"
  "length (frame_data example_started) = MAX_CONCURRENT_FRAMES"
proof -
  let ?g1 = "initial_globals\<lparr>new_width := width initial_globals,
               new_height := height initial_globals,
               mem_props := memory_properties example_device\<rparr>"
  from example_started_eq obtain g2 where
    c: "configure_swapchain example_device ?g1 = Inr g2"
    and k: "create_swapchain example_device g2 = Inr example_started"
    by (auto simp: main_startup_def Let_def split: option.splits if_splits sum.splits)
  have g2: "mem_props g2 = memory_properties example_device"
    "sample_count g2 = VK_SAMPLE_COUNT_1_BIT" "length (frame_data g2) = MAX_CONCURRENT_FRAMES"
    using c
    by (auto simp: configure_swapchain_def initial_globals_def Let_def
        split: if_splits sum.splits list.splits prod.splits)
  note cf = create_swapchain_fields [OF k]
  show "mem_props example_started = memory_properties example_device"
    by (simp add: cf g2)
  show "sample_count example_started = VK_SAMPLE_COUNT_1_BIT"
    by (simp add: cf g2)
  show "length (frame_data example_started) = MAX_CONCURRENT_FRAMES"
    by (simp add: cf g2 create_frame_data_length)
qed


section \<open>Properties of the main loop\<close>

lemma attachment_memory_type_halt:
  assumes "attachment_memory_type mp reqs = Inl h"
  shows "h \<noteq> Wait_never_returns"
proof (cases "find_memory_type mp reqs VK_MEMORY_PROPERTY_LAZILY_ALLOCATED_BIT")
  case (Inl h1)
  with assms have "h = h1" by (simp add: attachment_memory_type_def)
  with find_memory_type_halt [OF Inl] show ?thesis by simp
next
  case lazy: (Inr t)
  show ?thesis
  proof (cases "find_memory_type mp reqs VK_MEMORY_PROPERTY_DEVICE_LOCAL_BIT")
    case (Inl h2)
    with assms lazy have "h = h2"
      by (simp add: attachment_memory_type_def split: if_splits)
    with find_memory_type_halt [OF Inl] show ?thesis by simp
  next
    case (Inr t2)
    with assms lazy have "h = Fatal ''find_memory_type failed''"
      by (simp add: attachment_memory_type_def split: if_splits)
    then show ?thesis by simp
  qed
qed

lemma store_swapchain_images_halt:
  "store_swapchain_images dev fmt imgs i slots = Inl h \<Longrightarrow> h \<noteq> Wait_never_returns"
  by (induction dev fmt imgs i slots rule: store_swapchain_images.induct)
     (auto split: if_splits)

lemma create_swapchain_halt:
  assumes "create_swapchain dev g = Inl h"
  shows "h \<noteq> Wait_never_returns"
proof -
  have r: "h' \<noteq> Wait_never_returns" if "create_resolve_attachment dev g0 = Inl h'" for g0 h'
    using that
    by (auto simp: create_resolve_attachment_def
        split: if_splits option.splits sum.splits dest: attachment_memory_type_halt)
  have d: "h' \<noteq> Wait_never_returns" if "create_depth_attachment dev g0 = Inl h'" for g0 h'
    using that
    by (auto simp: create_depth_attachment_def
        split: option.splits sum.splits dest: attachment_memory_type_halt)
  from assms show ?thesis
    by (auto simp: create_swapchain_def Let_def
        split: if_splits sum.splits dest: r d store_swapchain_images_halt)
qed

lemma deliver_events_halt:
  "deliver_events fp evs st = Inl h \<Longrightarrow> h = Exit_success"
proof (induction evs arbitrary: st)
  case Nil
  then show ?case by simp
next
  case (Cons ev evs)
  show ?case
  proof (cases "deliver_event fp ev st")
    case (Inl h')
    then have "h' = Exit_success"
      by (auto simp: deliver_event_def wsi_key_press_def wsi_exit_def
          split: wsi_event.splits sum.splits if_splits wsi_key.splits)
    with Inl Cons.prems show ?thesis by simp
  next
    case (Inr st1)
    with Cons.prems have "deliver_events fp evs st1 = Inl h" by simp
    then show ?thesis by (rule Cons.IH)
  qed
qed

lemma fences_ready_iff:
  "fences_ready st \<longleftrightarrow>
     length (frame_data (gl st)) = 2 \<and> frame_index st < 2 \<and>
     slot_fence_ready (frame_data (gl st)) 0 \<and> slot_fence_ready (frame_data (gl st)) 1"
  by (simp add: fences_ready_def upt_frames) (simp add: MAX_CONCURRENT_FRAMES_def)

lemma created_fences_ready:
  assumes "length fd = MAX_CONCURRENT_FRAMES" and "i < MAX_CONCURRENT_FRAMES"
    and "creates_fences dev"
  shows "slot_fence_ready (create_frame_data dev fd) i"
  using assms by (simp add: slot_fence_ready_def create_frame_data_fence)

lemma deliver_event_frames:
  "deliver_event fp ev st = Inr st' \<Longrightarrow>
     frame_data (gl st') = frame_data (gl st) \<and> frame_index st' = frame_index st"
  by (auto simp: deliver_event_def wsi_resize_def split: wsi_event.splits sum.splits)

lemma deliver_events_frames:
  "deliver_events fp evs st = Inr st' \<Longrightarrow>
     frame_data (gl st') = frame_data (gl st) \<and> frame_index st' = frame_index st"
proof (induction evs arbitrary: st)
  case Nil
  then show ?case by simp
next
  case (Cons ev evs)
  then obtain st1 where e: "deliver_event fp ev st = Inr st1"
    and r: "deliver_events fp evs st1 = Inr st'"
    by (auto split: sum.splits)
  from Cons.IH [OF r] deliver_event_frames [OF e] show ?case by simp
qed

lemma recreate_swapchain_ready:
  assumes "recreate_swapchain dev g = Inr g'" and "length (frame_data g) = MAX_CONCURRENT_FRAMES"
    and "creates_fences dev"
  shows "length (frame_data g') = MAX_CONCURRENT_FRAMES"
    and "i < MAX_CONCURRENT_FRAMES \<Longrightarrow> slot_fence_ready (frame_data g') i"
proof -
  have fd: "frame_data g' = create_frame_data dev (frame_data (free_swapchain_data g))"
    by (rule recreate_swapchain_fields(5) [OF assms(1)])
  have len: "length (frame_data (free_swapchain_data g)) = MAX_CONCURRENT_FRAMES"
    by (simp add: free_swapchain_data_length assms(2))
  show "length (frame_data g') = MAX_CONCURRENT_FRAMES"
    by (simp add: fd create_frame_data_length len)
  show "slot_fence_ready (frame_data g') i" if "i < MAX_CONCURRENT_FRAMES"
    unfolding fd by (rule created_fences_ready [OF len that assms(3)])
qed

lemma wait_slot_ready:
  assumes "fences_ready st"
  shows "wait_slot inp st =
           Inr (if in_reset_result inp = VK_SUCCESS
                then st\<lparr>gl := (gl st)\<lparr>frame_data :=
                       (frame_data (gl st))[frame_index st := \<lparr>fence = Fence_reset\<rparr>]\<rparr>\<rparr>
                else st)"
proof -
  from assms have fi: "frame_index st < 2"
    and r0: "slot_fence_ready (frame_data (gl st)) 0"
    and r1: "slot_fence_ready (frame_data (gl st)) 1"
    by (simp_all add: fences_ready_iff)
  have "frame_index st = 0 \<or> frame_index st = 1" using fi by auto
  then have "slot_fence_ready (frame_data (gl st)) (frame_index st)"
    using r0 r1 by auto
  then show ?thesis
    using fi by (auto simp: wait_slot_def slot_fence_ready_def Let_def MAX_CONCURRENT_FRAMES_def)
qed

lemma acquire_record_submit_halt:
  "acquire_record_submit dev inp st = Inl h \<Longrightarrow> h \<noteq> Wait_never_returns"
  by (auto simp: acquire_record_submit_def recreate_swapchain_def
      split: if_splits sum.splits dest: create_swapchain_halt)

lemma acquire_record_submit_ready:
  assumes len: "length (frame_data (gl st)) = 2" and fi: "frame_index st < 2"
    and other: "\<And>i. i < 2 \<Longrightarrow> i \<noteq> frame_index st \<Longrightarrow> slot_fence_ready (frame_data (gl st)) i"
    and made: "creates_fences dev"
    and accepted: "in_submit_result inp = VK_SUCCESS"
    and step: "acquire_record_submit dev inp st = Inr (st', fc)"
  shows "fences_ready st'"
proof -
  let ?i = "frame_index st"
  from step accepted consider
    (recreated) g where "recreate_swapchain dev (gl st) = Inr g"
      "st' = st\<lparr>gl := g, first := replicate FIRST_SIZE False\<rparr>"
  | (frame) "st' = st\<lparr>gl := (gl st)\<lparr>frame_data :=
                         (frame_data (gl st))[?i := \<lparr>fence = Fence_submitted ?i\<rparr>]\<rparr>,
                 first := (first st)[in_image_index inp := True],
                 frame_index := (if ?i + 1 = MAX_CONCURRENT_FRAMES then 0 else ?i + 1)\<rparr>"
    by (auto simp: acquire_record_submit_def split: if_splits sum.splits)
  then show ?thesis
  proof cases
    case recreated
    have len2: "length (frame_data (gl st)) = MAX_CONCURRENT_FRAMES"
      by (simp add: len MAX_CONCURRENT_FRAMES_def)
    from recreate_swapchain_ready [OF recreated(1) len2 made]
    show ?thesis
      using fi by (simp add: fences_ready_iff recreated(2) MAX_CONCURRENT_FRAMES_def)
  next
    case frame
    have "?i = 0 \<or> ?i = 1" using fi by auto
    then show ?thesis
    proof
      assume z: "?i = 0"
      with other [of 1] have "slot_fence_ready (frame_data (gl st)) 1" by simp
      then show ?thesis
        using len z
        by (simp add: fences_ready_iff frame slot_fence_ready_def MAX_CONCURRENT_FRAMES_def)
    next
      assume o: "?i = 1"
      with other [of 0] have "slot_fence_ready (frame_data (gl st)) 0" by simp
      then show ?thesis
        using len o
        by (simp add: fences_ready_iff frame slot_fence_ready_def MAX_CONCURRENT_FRAMES_def)
    qed
  qed
qed

lemma loop_iteration_ready:
  assumes ready: "fences_ready st"
  shows "loop_iteration fp dev inp st \<noteq> Inl Wait_never_returns"
    and "creates_fences dev \<Longrightarrow> in_submit_result inp = VK_SUCCESS \<Longrightarrow>
         loop_iteration fp dev inp st = Inr (st', fc) \<Longrightarrow> fences_ready st'"
proof -
  let ?st0 = "st\<lparr>sc := advance_rotation fp (in_time inp) (sc st)\<rparr>"
  have ready0: "fences_ready ?st0"
    using ready by (simp add: fences_ready_iff)
  have ready1: "fences_ready st1" if "deliver_events fp (in_events inp) ?st0 = Inr st1" for st1
    using deliver_events_frames [OF that] ready0 by (simp add: fences_ready_iff)
  show "loop_iteration fp dev inp st \<noteq> Inl Wait_never_returns"
  proof (cases "deliver_events fp (in_events inp) ?st0")
    case (Inl h)
    then have "h = Exit_success" by (rule deliver_events_halt)
    then show ?thesis using Inl by (simp add: loop_iteration_def)
  next
    case (Inr st1)
    show ?thesis
      using acquire_record_submit_halt
      by (auto simp: loop_iteration_def Inr wait_slot_ready [OF ready1 [OF Inr]])
  qed
  show "fences_ready st'"
    if made: "creates_fences dev" and accepted: "in_submit_result inp = VK_SUCCESS"
      and it: "loop_iteration fp dev inp st = Inr (st', fc)"
  proof (cases "deliver_events fp (in_events inp) ?st0")
    case (Inl h)
    with it show ?thesis by (simp add: loop_iteration_def)
  next
    case (Inr st1)
    let ?st2 = "if in_reset_result inp = VK_SUCCESS
                then st1\<lparr>gl := (gl st1)\<lparr>frame_data :=
                       (frame_data (gl st1))[frame_index st1 := \<lparr>fence = Fence_reset\<rparr>]\<rparr>\<rparr>
                else st1"
    from ready1 [OF Inr] have len: "length (frame_data (gl st1)) = 2"
      and fi: "frame_index st1 < 2"
      and r0: "slot_fence_ready (frame_data (gl st1)) 0"
      and r1: "slot_fence_ready (frame_data (gl st1)) 1"
      by (simp_all add: fences_ready_iff)
    from it have step: "acquire_record_submit dev inp ?st2 = Inr (st', fc)"
      by (simp add: loop_iteration_def Inr wait_slot_ready [OF ready1 [OF Inr]] split: if_splits)
    show ?thesis
    proof (rule acquire_record_submit_ready [OF _ _ _ made accepted step])
      show "length (frame_data (gl ?st2)) = 2" by (simp add: len)
      show "frame_index ?st2 < 2" by (simp add: fi)
      fix i assume "i < 2" and "i \<noteq> frame_index ?st2"
      then show "slot_fence_ready (frame_data (gl ?st2)) i"
        using r0 r1 by (auto simp: slot_fence_ready_def less_Suc_eq numeral_2_eq_2)
    qed
  qed
qed

lemma main_loop_ready:
  "fences_ready st \<Longrightarrow> creates_fences dev \<Longrightarrow>
   list_all (\<lambda>inp. in_submit_result inp = VK_SUCCESS) inps \<Longrightarrow>
     (case main_loop fp dev inps st of
        Inl h \<Rightarrow> h \<noteq> Wait_never_returns
      | Inr (st', fcs) \<Rightarrow> fences_ready st')"
proof (induction inps arbitrary: st)
  case Nil
  then show ?case by simp
next
  case (Cons inp inps)
  from Cons.prems(3) have accepted: "in_submit_result inp = VK_SUCCESS"
    and rest: "list_all (\<lambda>inp. in_submit_result inp = VK_SUCCESS) inps"
    by simp_all
  show ?case
  proof (cases "loop_iteration fp dev inp st")
    case (Inl h)
    with loop_iteration_ready(1) [OF Cons.prems(1), of fp dev inp] show ?thesis by simp
  next
    case (Inr r)
    obtain st1 fc where r: "r = (st1, fc)" by (cases r)
    from loop_iteration_ready(2) [OF Cons.prems(1,2) accepted] Inr r
    have "fences_ready st1" by simp
    from Cons.IH [OF this Cons.prems(2) rest] show ?thesis
      by (simp add: Inr r split: sum.splits prod.splits)
  qed
qed

text \<open>
  Claim C9, as stated, fails. On the example driver every fence is created signaled. When
  the \<^verbatim>\<open>vkQueueSubmit\<close> of the first pass is refused for lack of host memory, the pass
  ends with the fence of slot 0 reset and in no submission; the second pass runs on slot
  1; the third pass waits on the fence of slot 0, which nothing will signal.
\<close>

theorem wait_blocks_after_refused_submit_counterexample:
  "map fence (frame_data example_started) = [Fence_created_signaled, Fence_created_signaled]
   \<and> map_sum id (map fence \<circ> frame_data \<circ> gl \<circ> fst)
        (main_loop int_fp example_device [refused_submit_input 0 0]
           (initial_main_state int_fp example_started))
       = Inr [Fence_reset, Fence_created_signaled]
   \<and> map_sum id (\<lambda>r. ())
        (main_loop int_fp example_device
           [refused_submit_input 0 0, acquire_input 1 1, acquire_input 2 2]
           (initial_main_state int_fp example_started))
       = Inl Wait_never_returns"
  by code_simp

text \<open>
  Claim C9, amended. When the driver makes the fences it is asked for, create_swapchain
  leaves every frame slot with a fence created signaled. From there, over any run of
  passes of the main loop in which every \<^verbatim>\<open>vkQueueSubmit\<close> is accepted, with any events,
  acquire results, reset results and swapchain recreations, the loop never waits on a
  fence that was reset and went into no submission; after every pass, each slot's fence
  is as created or went into that slot's latest submission, so the wait of the next pass
  returns.
\<close>

theorem frame_fences_ready_while_submits_are_accepted:
  assumes created: "create_swapchain dev0 g0 = Inr g"
    and slots: "length (frame_data g0) = MAX_CONCURRENT_FRAMES"
    and made0: "creates_fences dev0"
    and made: "creates_fences dev"
    and accepted: "list_all (\<lambda>inp. in_submit_result inp = VK_SUCCESS) inps"
  shows "map fence (frame_data g) = [Fence_created_signaled, Fence_created_signaled]
         \<and> (case main_loop fp dev inps (initial_main_state fp g) of
               Inl h \<Rightarrow> h \<noteq> Wait_never_returns
             | Inr (st, fcs) \<Rightarrow>
                 fences_ready st \<and>
                 slot_fence_ready (frame_data (gl st)) (frame_index st) \<and>
                 (\<forall>inp. \<exists>st2. wait_slot inp st = Inr st2))"
proof -
  have fd: "frame_data g = create_frame_data dev0 (frame_data g0)"
    by (rule create_swapchain_fields(5) [OF created])
  have len: "length (frame_data g) = 2"
    using slots by (simp add: fd create_frame_data_length MAX_CONCURRENT_FRAMES_def)
  have f0: "fence (frame_data g ! 0) = Fence_created_signaled"
    and f1: "fence (frame_data g ! 1) = Fence_created_signaled"
    using slots made0 by (simp_all add: fd create_frame_data_fence MAX_CONCURRENT_FRAMES_def)
  from len obtain a b where ab: "frame_data g = [a, b]"
    by (auto simp: length_Suc_conv numeral_2_eq_2)
  have all: "map fence (frame_data g) = [Fence_created_signaled, Fence_created_signaled]"
    using f0 f1 by (simp add: ab)
  have init: "fences_ready (initial_main_state fp g)"
    using len f0 f1 by (simp add: fences_ready_iff initial_main_state_def slot_fence_ready_def)
  have later: "slot_fence_ready (frame_data (gl st)) (frame_index st) \<and>
               (\<forall>inp. \<exists>st2. wait_slot inp st = Inr st2)"
    if r: "fences_ready st" for st :: "'a main_state"
  proof -
    from r have "frame_index st = 0 \<or> frame_index st = 1"
      by (auto simp: fences_ready_iff)
    with r have "slot_fence_ready (frame_data (gl st)) (frame_index st)"
      by (auto simp: fences_ready_iff)
    with wait_slot_ready [OF r] show ?thesis by simp
  qed
  from main_loop_ready [OF init made accepted, of fp] later all show ?thesis
    by (auto split: sum.splits)
qed

text \<open>The example driver, over two frames whose submits are accepted.\<close>

theorem frame_fences_ready_while_submits_are_accepted_witness:
  "\<exists>g. create_swapchain example_device example_started = Inr g
     \<and> length (frame_data example_started) = MAX_CONCURRENT_FRAMES
     \<and> creates_fences example_device
     \<and> list_all (\<lambda>inp. in_submit_result inp = VK_SUCCESS) [acquire_input 0 0, acquire_input 1 1]
     \<and> map fence (frame_data g) = [Fence_created_signaled, Fence_created_signaled]
     \<and> (case main_loop int_fp example_device [acquire_input 0 0, acquire_input 1 1]
                (initial_main_state int_fp g) of
           Inl h \<Rightarrow> h \<noteq> Wait_never_returns
         | Inr (st, fcs) \<Rightarrow> fences_ready st)"
proof -
  from example_create_swapchain [OF example_started_fields(1,2)]
  obtain g where c: "create_swapchain example_device example_started = Inr g" by blast
  have made: "creates_fences example_device"
    by (simp add: creates_fences_iff example_device_def)
  have accepted: "list_all (\<lambda>inp. in_submit_result inp = VK_SUCCESS)
                    [acquire_input 0 0, acquire_input 1 1]"
    by (simp add: acquire_input_def)
  note run = frame_fences_ready_while_submits_are_accepted
         [OF c example_started_fields(3) made made accepted, of int_fp]
  from run have r1: "map fence (frame_data g) = [Fence_created_signaled, Fence_created_signaled]"
    by (rule conjunct1)
  from run have r2: "case main_loop int_fp example_device [acquire_input 0 0, acquire_input 1 1]
                (initial_main_state int_fp g) of
           Inl h \<Rightarrow> h \<noteq> Wait_never_returns
         | Inr (st, fcs) \<Rightarrow> fences_ready st"
    by (auto split: sum.splits)
  show ?thesis
    by (intro exI [of _ g] conjI) (fact c example_started_fields(3) made accepted r1 r2)+
qed

text \<open>
  What a recorded frame's first image barrier holds, and what a recreation does to the
  first-use flags: the old layout is chosen by the flag of the acquired image index, the
  flag of that index is set afterwards, and a recreation clears all four flags. The image
  the barrier names is the entry of \<^verbatim>\<open>image_data\<close> at the frame slot's index.
\<close>

lemma acquire_record_submit_frame:
  assumes "acquire_record_submit dev inp st = Inr (st', Some fc)"
  shows "fc_pre_barrier_image fc = image (image_data (gl st) ! frame_index st)"
    and "fc_pre_barrier_old_layout fc =
           (if first st ! in_image_index inp then VK_IMAGE_LAYOUT_PRESENT_SRC_KHR
            else VK_IMAGE_LAYOUT_UNDEFINED)"
    and "fc_pre_barrier_new_layout fc = VK_IMAGE_LAYOUT_COLOR_ATTACHMENT_OPTIMAL"
    and "first st' = (first st)[in_image_index inp := True]"
    and "in_image_index inp < FIRST_SIZE"
  using assms
  by (auto simp: acquire_record_submit_def record_frame_def split: if_splits sum.splits)

lemma acquire_record_submit_recreated:
  assumes "acquire_record_submit dev inp st = Inr (st', None)"
  shows "first st' = replicate FIRST_SIZE False"
  using assms
  by (auto simp: acquire_record_submit_def split: if_splits sum.splits)

text \<open>
  Claim C1. On the example driver's swapchain of three images, acquired in the order
  0, 1, 2, the third frame is recorded in frame slot 0 for the acquired image 2: it renders
  to view 1102, the view of image 102 at index 2, and its pre-render barrier names image
  100, the image at index 0, where the claim has it name the acquired image.
\<close>

theorem pre_render_barrier_image_is_frame_slot_image:
  "map_sum id (map (\<lambda>fc. (fc_frame_index fc, fc_image_index fc, fc_pre_barrier_old_layout fc,
                           fc_pre_barrier_image fc, fc_color_view fc)) \<circ> snd)
     (main_loop int_fp example_device
        [acquire_input 0 0, acquire_input 1 1, acquire_input 2 2]
        (initial_main_state int_fp example_started))
   = Inr [(0, 0, VK_IMAGE_LAYOUT_UNDEFINED, 100, 1100),
          (1, 1, VK_IMAGE_LAYOUT_UNDEFINED, 101, 1101),
          (0, 2, VK_IMAGE_LAYOUT_UNDEFINED, 100, 1102)]
   \<and> map image (image_data example_started) = [100, 101, 102, 0, 0]
   \<and> map view (image_data example_started) = [1100, 1101, 1102, 0, 0]"
  by code_simp

end
